theory Spec2Isabelle
  imports Complex_Main
begin

section \<open>Python values\<close>

text \<open>
  The gateway passes parsed JSON documents around as untyped Python values. A value is
  what \<^verbatim>\<open>json.loads\<close> produces (None, booleans, integers, floats, strings, lists,
  dicts with string keys in document order), a tuple, or one of the two response
  objects that the program puts into dictionaries: the \<^verbatim>\<open>httpx.Response\<close> it
  received (kept by its status code) and a FastAPI \<^verbatim>\<open>JSONResponse\<close> (status code
  and content). \<open>ErrText e\<close> is the string \<^verbatim>\<open>str(error)\<close> of a caught exception.
  The keys of a dict are distinct, as they are after parsing.

  A finite float is kept by its exact value. \<^verbatim>\<open>json.loads\<close> also produces the floats
  that are not finite: it reads \<^verbatim>\<open>NaN\<close> and \<^verbatim>\<open>Infinity\<close>, and a literal such as
  \<^verbatim>\<open>1e400\<close> becomes infinity.

  A string is kept by its bytes in UTF-8, a lone surrogate code point (which
  \<^verbatim>\<open>json.loads\<close> produces from an escape such as \<^verbatim>\<open>"\\ud800"\<close>) by the three bytes
  that Python's \<^verbatim>\<open>surrogatepass\<close> handler gives it: \<open>0xED\<close>, then a byte from
  \<open>0xA0\<close> on. No other text has these two bytes in a row.
\<close>

datatype pyexc =
    KeyError string
  | TypeError
  | AttributeError
  | IndexError
  | ValueError
  | UnicodeEncodeError
  | JSONDecodeError
  | TransportError string
  | SigningError
  | DataError

datatype nonfinite = PosInf | NegInf | NaN

datatype pyval =
    PNone
  | PBool bool
  | PInt int
  | PFloat rat
  | PNonFinite nonfinite
  | PStr string
  | PList "pyval list"
  | PDict "(string \<times> pyval) list"
  | PTuple "pyval list"
  | ErrText pyexc
  | HttpxResponse int
  | JSONResponse int pyval

text \<open>A result of a Python expression: the exception raised, or the value.\<close>

type_synonym 'a py = "pyexc + 'a"

definition bind_py :: "'a py \<Rightarrow> ('a \<Rightarrow> 'b py) \<Rightarrow> 'b py" where
  "bind_py x f = (case x of Inl e \<Rightarrow> Inl e | Inr v \<Rightarrow> f v)"

text \<open>Truthiness, as \<^verbatim>\<open>if x\<close>, \<^verbatim>\<open>not x\<close> and \<^verbatim>\<open>all([...])\<close> test it.\<close>

fun truthy :: "pyval \<Rightarrow> bool" where
  "truthy PNone = False"
| "truthy (PBool b) = b"
| "truthy (PInt i) = (i \<noteq> 0)"
| "truthy (PFloat r) = (r \<noteq> 0)"
| "truthy (PNonFinite x) = True"
| "truthy (PStr s) = (s \<noteq> [])"
| "truthy (PList xs) = (xs \<noteq> [])"
| "truthy (PDict kvs) = (kvs \<noteq> [])"
| "truthy (PTuple xs) = (xs \<noteq> [])"
| "truthy (ErrText (TransportError m)) = (m \<noteq> [])"
| "truthy (ErrText e) = True"
| "truthy (HttpxResponse c) = True"
| "truthy (JSONResponse c v) = True"

text \<open>\<^verbatim>\<open>x == True\<close>: Python's booleans are the integers 0 and 1.\<close>

fun eq_True :: "pyval \<Rightarrow> bool" where
  "eq_True (PBool b) = b"
| "eq_True (PInt i) = (i = 1)"
| "eq_True (PFloat r) = (r = 1)"
| "eq_True v = False"

text \<open>\<^verbatim>\<open>x == "literal"\<close> for a string literal.\<close>

fun eq_str :: "pyval \<Rightarrow> string \<Rightarrow> bool" where
  "eq_str (PStr s) t = (s = t)"
| "eq_str v t = False"

text \<open>\<^verbatim>\<open>x in STATUSES\<close> for a configured list of status strings: the status
  string when it is one of them.\<close>

fun accepted :: "pyval \<Rightarrow> string list \<Rightarrow> string option" where
  "accepted (PStr s) statuses = (if s \<in> set statuses then Some s else None)"
| "accepted v statuses = None"

text \<open>\<^verbatim>\<open>d.get(k)\<close>: only a dict has the method; a missing key gives None.\<close>

fun py_get :: "pyval \<Rightarrow> string \<Rightarrow> pyval py" where
  "py_get (PDict kvs) k = Inr (case map_of kvs k of None \<Rightarrow> PNone | Some v \<Rightarrow> v)"
| "py_get v k = Inl AttributeError"

text \<open>\<^verbatim>\<open>d.get(k, [])\<close>.\<close>

fun py_get_default :: "pyval \<Rightarrow> string \<Rightarrow> pyval \<Rightarrow> pyval py" where
  "py_get_default (PDict kvs) k d = Inr (case map_of kvs k of None \<Rightarrow> d | Some v \<Rightarrow> v)"
| "py_get_default v k d = Inl AttributeError"

text \<open>\<^verbatim>\<open>d["k"]\<close> with a string key: KeyError on a dict without the key, TypeError on
  every other value.\<close>

fun py_item :: "pyval \<Rightarrow> string \<Rightarrow> pyval py" where
  "py_item (PDict kvs) k = (case map_of kvs k of None \<Rightarrow> Inl (KeyError k) | Some v \<Rightarrow> Inr v)"
| "py_item v k = Inl TypeError"

text \<open>A byte that continues a character in UTF-8, and whether a string holds a lone
  surrogate.\<close>

definition continuation :: "char \<Rightarrow> bool" where
  "continuation b \<longleftrightarrow> (128::nat) \<le> of_char b \<and> (of_char b :: nat) < 192"

fun lone_surrogate :: "string \<Rightarrow> bool" where
  "lone_surrogate (a # b # cs) =
     ((of_char a = (237::nat) \<and> (160::nat) \<le> of_char b) \<or> lone_surrogate (b # cs))"
| "lone_surrogate cs = False"

text \<open>\<^verbatim>\<open>xs[0]\<close>: the first element of a non-empty list or tuple, the first character of
  a non-empty string (its first byte and the bytes that continue it), IndexError when
  it is empty; a dict parsed from JSON has no integer key.\<close>

fun py_first :: "pyval \<Rightarrow> pyval py" where
  "py_first (PList (x # xs)) = Inr x"
| "py_first (PTuple (x # xs)) = Inr x"
| "py_first (PStr (c # cs)) = Inr (PStr (c # takeWhile continuation cs))"
| "py_first (PList []) = Inl IndexError"
| "py_first (PTuple []) = Inl IndexError"
| "py_first (PStr []) = Inl IndexError"
| "py_first (PDict kvs) = Inl (KeyError ''0'')"
| "py_first v = Inl TypeError"

fun has_infix :: "string \<Rightarrow> string \<Rightarrow> bool" where
  "has_infix p [] = (p = [])"
| "has_infix p (c # cs) = (take (length p) (c # cs) = p \<or> has_infix p cs)"

text \<open>\<^verbatim>\<open>"k" in x\<close>: a key of a dict, an element of a list or tuple, a substring of a
  string; TypeError on a value that is not a container.\<close>

fun py_in :: "string \<Rightarrow> pyval \<Rightarrow> bool py" where
  "py_in k (PDict kvs) = Inr (map_of kvs k \<noteq> None)"
| "py_in k (PList xs) = Inr (PStr k \<in> set xs)"
| "py_in k (PTuple xs) = Inr (PStr k \<in> set xs)"
| "py_in k (PStr s) = Inr (has_infix k s)"
| "py_in k v = Inl TypeError"

text \<open>\<^verbatim>\<open>s.split("+")\<close>: only a string has the method.\<close>

fun split_on :: "char \<Rightarrow> string \<Rightarrow> string list" where
  "split_on d [] = [[]]"
| "split_on d (c # cs) =
     (if c = d then [] # split_on d cs
      else (case split_on d cs of [] \<Rightarrow> [[c]] | w # ws \<Rightarrow> (c # w) # ws))"

fun py_split_plus :: "pyval \<Rightarrow> string list py" where
  "py_split_plus (PStr s) = Inr (split_on CHR ''+'' s)"
| "py_split_plus v = Inl AttributeError"

text \<open>What \<^verbatim>\<open>json.dumps\<close> accepts with its defaults: everything but the response
  objects (it writes a float that is not finite as \<^verbatim>\<open>NaN\<close> or \<^verbatim>\<open>Infinity\<close>, and
  escapes every character outside ASCII).\<close>

fun serializable :: "pyval \<Rightarrow> bool" where
  "serializable (PList xs) = list_all serializable xs"
| "serializable (PTuple xs) = list_all serializable xs"
| "serializable (PDict kvs) = list_all serializable (map snd kvs)"
| "serializable (HttpxResponse c) = False"
| "serializable (JSONResponse c v) = False"
| "serializable v = True"

text \<open>The text \<^verbatim>\<open>json.dumps(v)\<close>, kept as the value it serializes.\<close>

datatype json_text = Dumps pyval

definition json_dumps :: "pyval \<Rightarrow> json_text py" where
  "json_dumps v = (if serializable v then Inr (Dumps v) else Inl TypeError)"

text \<open>\<^verbatim>\<open>JSONResponse(status_code=c, content=v)\<close> renders its content when it is built:
  \<^verbatim>\<open>json.dumps(v, ensure_ascii=False, allow_nan=False, ...)\<close>, then
  \<^verbatim>\<open>.encode("utf-8")\<close>. The first raises at the first value, in document order, that
  is a response object (TypeError) or a float that is not finite (ValueError); the
  second raises when a string or a key of the document holds a lone surrogate. The text
  of an exception is taken to hold none.\<close>

fun first_error :: "pyexc option list \<Rightarrow> pyexc option" where
  "first_error [] = None"
| "first_error (Some e # xs) = Some e"
| "first_error (None # xs) = first_error xs"

fun dumps_strict :: "pyval \<Rightarrow> pyexc option" where
  "dumps_strict (PNonFinite x) = Some ValueError"
| "dumps_strict (HttpxResponse c) = Some TypeError"
| "dumps_strict (JSONResponse c v) = Some TypeError"
| "dumps_strict (PList xs) = first_error (map dumps_strict xs)"
| "dumps_strict (PTuple xs) = first_error (map dumps_strict xs)"
| "dumps_strict (PDict kvs) = first_error (map dumps_strict (map snd kvs))"
| "dumps_strict v = None"

fun surrogates :: "pyval \<Rightarrow> bool" where
  "surrogates (PStr s) = lone_surrogate s"
| "surrogates (PList xs) = list_ex surrogates xs"
| "surrogates (PTuple xs) = list_ex surrogates xs"
| "surrogates (PDict kvs) =
     (list_ex lone_surrogate (map fst kvs) \<or> list_ex surrogates (map snd kvs))"
| "surrogates v = False"

definition render_error :: "pyval \<Rightarrow> pyexc option" where
  "render_error v =
     (case dumps_strict v of
        Some e \<Rightarrow> Some e
      | None \<Rightarrow> if surrogates v then Some UnicodeEncodeError else None)"

definition json_response :: "int \<Rightarrow> pyval \<Rightarrow> pyval py" where
  "json_response c v = (case render_error v of None \<Rightarrow> Inr (JSONResponse c v) | Some e \<Rightarrow> Inl e)"

section \<open>The Order Store\<close>

text \<open>
  \<^verbatim>\<open>models.py\<close> declares three tables of the same shape; \<^verbatim>\<open>jm_orders\<close> has one more
  column, \<^verbatim>\<open>message_id\<close>. The only key is the autoincrementing \<^verbatim>\<open>id\<close>: no column is
  declared unique. A column holds the Python value that the insert was given; the
  columns that the program itself fills (\<^verbatim>\<open>api_name\<close>, \<^verbatim>\<open>status\<close>,
  \<^verbatim>\<open>order_details\<close>) are a string, a string and a serialized document. The
  functions below are the statements as the storage engine executes them; that it can
  refuse an insert is part of the world in which an order is created.
\<close>

record BaseOrder =
  row_id :: nat
  user_id :: pyval
  zone_id :: pyval
  quantity :: pyval
  price :: pyval
  product :: string
  api_name :: string
  order_id :: pyval
  email_user :: pyval
  status :: string
  order_details :: json_text

record BaseOrderJM = BaseOrder +
  message_id :: pyval

text \<open>The database: the rows of each table in insertion order, and each table's
  \<^verbatim>\<open>id\<close> sequence.\<close>

record database =
  vp_orders :: "BaseOrder list"
  vp_serial :: nat
  mg_orders :: "BaseOrder list"
  mg_serial :: nat
  jm_orders :: "BaseOrderJM list"
  jm_serial :: nat

definition empty_db :: database where
  "empty_db = \<lparr>vp_orders = [], vp_serial = 1, mg_orders = [], mg_serial = 1,
     jm_orders = [], jm_serial = 1\<rparr>"

subsection \<open>Provider A: \<^verbatim>\<open>vp_orders\<close>\<close>

definition createOrderVP ::
  "pyval \<Rightarrow> pyval \<Rightarrow> pyval \<Rightarrow> pyval \<Rightarrow> string \<Rightarrow> string \<Rightarrow> pyval \<Rightarrow> pyval \<Rightarrow> string \<Rightarrow>
   json_text \<Rightarrow> database \<Rightarrow> database" where
  "createOrderVP uid zid qty prc pname api oid email st details db =
     db\<lparr>vp_orders := vp_orders db @
           [\<lparr>row_id = vp_serial db, user_id = uid, zone_id = zid, quantity = qty,
             price = prc, product = pname, api_name = api, order_id = oid,
             email_user = email, status = st, order_details = details\<rparr>],
        vp_serial := Suc (vp_serial db)\<rparr>"

definition getAllOrdersVP :: "database \<Rightarrow> BaseOrder list" where
  "getAllOrdersVP db = vp_orders db"

definition getOrderIdVP :: "pyval \<Rightarrow> database \<Rightarrow> BaseOrder option" where
  "getOrderIdVP oid db = find (\<lambda>r. order_id r = oid) (vp_orders db)"

definition getOrderStatusVP :: "string \<Rightarrow> database \<Rightarrow> BaseOrder list" where
  "getOrderStatusVP st db = filter (\<lambda>r. status r = st) (vp_orders db)"

text \<open>The update statement sets both columns in every row that its \<^verbatim>\<open>where\<close> clause
  selects; an argument left at None keeps the column's value.\<close>

definition set_columns ::
  "string option \<Rightarrow> json_text option \<Rightarrow> ('a BaseOrder_scheme) \<Rightarrow> ('a BaseOrder_scheme)" where
  "set_columns st details r =
     r\<lparr>status := (case st of Some s \<Rightarrow> s | None \<Rightarrow> status r),
       order_details := (case details of Some d \<Rightarrow> d | None \<Rightarrow> order_details r)\<rparr>"

definition updateOrderVP ::
  "pyval \<Rightarrow> string option \<Rightarrow> json_text option \<Rightarrow> database \<Rightarrow> database" where
  "updateOrderVP oid st details db =
     db\<lparr>vp_orders := map (\<lambda>r. if order_id r = oid then set_columns st details r else r)
                         (vp_orders db)\<rparr>"

definition deleteOrderVP :: "pyval \<Rightarrow> database \<Rightarrow> database" where
  "deleteOrderVP oid db = db\<lparr>vp_orders := filter (\<lambda>r. order_id r \<noteq> oid) (vp_orders db)\<rparr>"

subsection \<open>Provider B: \<^verbatim>\<open>mg_orders\<close>\<close>

definition createOrderMG ::
  "pyval \<Rightarrow> pyval \<Rightarrow> pyval \<Rightarrow> pyval \<Rightarrow> string \<Rightarrow> string \<Rightarrow> pyval \<Rightarrow> pyval \<Rightarrow> string \<Rightarrow>
   json_text \<Rightarrow> database \<Rightarrow> database" where
  "createOrderMG uid zid qty prc pname api oid email st details db =
     db\<lparr>mg_orders := mg_orders db @
           [\<lparr>row_id = mg_serial db, user_id = uid, zone_id = zid, quantity = qty,
             price = prc, product = pname, api_name = api, order_id = oid,
             email_user = email, status = st, order_details = details\<rparr>],
        mg_serial := Suc (mg_serial db)\<rparr>"

definition getAllOrdersMG :: "database \<Rightarrow> BaseOrder list" where
  "getAllOrdersMG db = mg_orders db"

definition getOrderIdMG :: "pyval \<Rightarrow> database \<Rightarrow> BaseOrder option" where
  "getOrderIdMG oid db = find (\<lambda>r. order_id r = oid) (mg_orders db)"

definition getOrderStatusMG :: "string \<Rightarrow> database \<Rightarrow> BaseOrder list" where
  "getOrderStatusMG st db = filter (\<lambda>r. status r = st) (mg_orders db)"

definition updateOrderMG ::
  "pyval \<Rightarrow> string option \<Rightarrow> json_text option \<Rightarrow> database \<Rightarrow> database" where
  "updateOrderMG oid st details db =
     db\<lparr>mg_orders := map (\<lambda>r. if order_id r = oid then set_columns st details r else r)
                         (mg_orders db)\<rparr>"

definition deleteOrderMG :: "pyval \<Rightarrow> database \<Rightarrow> database" where
  "deleteOrderMG oid db = db\<lparr>mg_orders := filter (\<lambda>r. order_id r \<noteq> oid) (mg_orders db)\<rparr>"

subsection \<open>Provider C: \<^verbatim>\<open>jm_orders\<close>, keyed by the pair of identifiers\<close>

definition createOrderJM ::
  "pyval \<Rightarrow> pyval \<Rightarrow> pyval \<Rightarrow> pyval \<Rightarrow> string \<Rightarrow> string \<Rightarrow> pyval \<Rightarrow> pyval \<Rightarrow> pyval \<Rightarrow>
   string \<Rightarrow> json_text \<Rightarrow> database \<Rightarrow> database" where
  "createOrderJM uid zid qty prc pname api oid mid email st details db =
     db\<lparr>jm_orders := jm_orders db @
           [\<lparr>row_id = jm_serial db, user_id = uid, zone_id = zid, quantity = qty,
             price = prc, product = pname, api_name = api, order_id = oid,
             email_user = email, status = st, order_details = details,
             message_id = mid\<rparr>],
        jm_serial := Suc (jm_serial db)\<rparr>"

definition getAllOrdersJM :: "database \<Rightarrow> BaseOrderJM list" where
  "getAllOrdersJM db = jm_orders db"

definition getOrderIdJM :: "pyval \<Rightarrow> pyval \<Rightarrow> database \<Rightarrow> BaseOrderJM option" where
  "getOrderIdJM oid mid db =
     find (\<lambda>r. order_id r = oid \<and> message_id r = mid) (jm_orders db)"

definition getOrderStatusJM :: "string \<Rightarrow> database \<Rightarrow> BaseOrderJM list" where
  "getOrderStatusJM st db = filter (\<lambda>r. status r = st) (jm_orders db)"

definition updateOrderJM ::
  "pyval \<Rightarrow> pyval \<Rightarrow> string option \<Rightarrow> json_text option \<Rightarrow> database \<Rightarrow> database" where
  "updateOrderJM oid mid st details db =
     db\<lparr>jm_orders := map (\<lambda>r. if order_id r = oid \<and> message_id r = mid
                               then set_columns st details r else r)
                         (jm_orders db)\<rparr>"

definition deleteOrderJM :: "pyval \<Rightarrow> pyval \<Rightarrow> database \<Rightarrow> database" where
  "deleteOrderJM oid mid db =
     db\<lparr>jm_orders := filter (\<lambda>r. \<not> (order_id r = oid \<and> message_id r = mid)) (jm_orders db)\<rparr>"

definition getCountOrderVP :: "database \<Rightarrow> nat" where
  "getCountOrderVP db = length (vp_orders db)"

definition getCountOrderMG :: "database \<Rightarrow> nat" where
  "getCountOrderMG db = length (mg_orders db)"

definition getCountOrderJM :: "database \<Rightarrow> nat" where
  "getCountOrderJM db = length (jm_orders db)"

text \<open>The handle of a row, and the rows of a table that carry a given handle.\<close>

definition handle_jm :: "BaseOrderJM \<Rightarrow> pyval \<times> pyval" where
  "handle_jm r = (order_id r, message_id r)"

definition rows_vp :: "pyval \<Rightarrow> database \<Rightarrow> BaseOrder list" where
  "rows_vp oid db = filter (\<lambda>r. order_id r = oid) (vp_orders db)"

definition rows_mg :: "pyval \<Rightarrow> database \<Rightarrow> BaseOrder list" where
  "rows_mg oid db = filter (\<lambda>r. order_id r = oid) (mg_orders db)"

definition rows_jm :: "pyval \<Rightarrow> pyval \<Rightarrow> database \<Rightarrow> BaseOrderJM list" where
  "rows_jm oid mid db =
     filter (\<lambda>r. order_id r = oid \<and> message_id r = mid) (jm_orders db)"

text \<open>The invariant of the spec's data model: no two rows of a table share a handle.\<close>

definition one_row_per_handle :: "database \<Rightarrow> bool" where
  "one_row_per_handle db \<longleftrightarrow>
     distinct (map order_id (vp_orders db)) \<and>
     distinct (map order_id (mg_orders db)) \<and>
     distinct (map handle_jm (jm_orders db))"

section \<open>Configuration, the outside world, and what the program does to it\<close>

text \<open>
  \<^verbatim>\<open>config.py\<close> is not part of the sources: the operator list and the three status
  vocabularies are parameters. The credentials and base URIs only enter the requests
  and are left out.
\<close>

record config =
  TG_ADMINS :: "pyval list"
  VP_STATUSES :: "string list"
  MG_STATUSES :: "string list"
  JM_STATUSES :: "string list"

datatype provider = VIPAYMENT | MOOGOLD | JOLLYMAX

text \<open>The "new order" text of \<^verbatim>\<open>service_create_order\<close>, by the values its f-string
  interpolates: the service label, the product name, the user, the quantity and the
  price.\<close>

datatype notice = NewOrder string string pyval pyval pyval

text \<open>Every effect outside the process, in the order the program performs it: a
  \<^verbatim>\<open>bot.send_message\<close> to one operator, a POST to a provider (the API method and the
  payload without credentials and timestamps), a row inserted into the store and an
  update of the store (the handle they carry).\<close>

datatype event =
    SendMessage pyval notice
  | HttpPost provider string pyval
  | InsertOrder provider pyval "pyval option"
  | UpdateOrder provider pyval "pyval option"

text \<open>What one \<^verbatim>\<open>client.post\<close> gives back: it raises (with the message of the
  exception), or it returns a response with a status code whose body
  \<^verbatim>\<open>response.json()\<close> parses (\<open>None\<close> when it raises instead).\<close>

datatype http_reply = NoReply string | Reply int "pyval option"

text \<open>The world at one order creation: the provider's reply to the POST, the two
  identifiers that \<^verbatim>\<open>generate_unique_id\<close> draws for provider C, whether
  \<^verbatim>\<open>generate_signature\<close> raises (it reads the key file on every call, before it
  serializes the payload), and whether the storage engine refuses the insert (it raises
  DataError for a value that does not fit its column, such as a number in a string
  column, and then writes nothing).\<close>

record outside =
  reply :: http_reply
  unique_ids :: "string \<times> string"
  signing :: "pyexc option"
  insert_fault :: "pyexc option"

section \<open>The notifier (\<^verbatim>\<open>bot.py\<close>)\<close>

text \<open>\<^verbatim>\<open>send_message_order\<close> tries every operator in turn; an exception of one
  \<^verbatim>\<open>bot.send_message\<close> is caught and the loop continues, so the attempts are the
  same whether a delivery fails or not.\<close>

definition send_message_order :: "config \<Rightarrow> notice \<Rightarrow> event list" where
  "send_message_order cfg message_text = map (\<lambda>u. SendMessage u message_text) (TG_ADMINS cfg)"

section \<open>Creating an order (\<^verbatim>\<open>req_methods.py\<close> and the three services)\<close>

definition warning_result :: "string \<Rightarrow> pyval \<Rightarrow> pyval" where
  "warning_result msg data =
     PDict [(''status'', PStr ''warning''), (''message'', PStr msg), (''data'', data)]"

definition create_failed :: "pyval \<Rightarrow> int \<Rightarrow> pyval" where
  "create_failed uid code =
     PDict [(''status'', PStr ''error''), (''user_id'', uid),
            (''message'', PStr ''the request failed''), (''data'', HttpxResponse code)]"

definition create_exception :: "pyval \<Rightarrow> pyexc \<Rightarrow> pyval" where
  "create_exception uid e =
     PDict [(''status'', PStr ''exception''), (''user_id'', uid),
            (''message'', PStr ''function error: (creating order)''), (''data'', ErrText e)]"

definition function_error :: "string \<Rightarrow> pyexc \<Rightarrow> pyval" where
  "function_error fname e =
     PDict [(''status'', PStr ''error''), (''message'', PStr (''function '' @ fname)),
            (''data'', ErrText e)]"

text \<open>Whether the insert is refused. A string column takes a string or None, the
  quantity takes an integer of 32 bits or None (a boolean is left to the engine); any
  other value makes the driver raise DataError. Values that fit can still meet a fault
  of the engine, which the world decides.\<close>

fun text_column :: "pyval \<Rightarrow> bool" where
  "text_column (PStr s) = True"
| "text_column PNone = True"
| "text_column v = False"

fun integer_column :: "pyval \<Rightarrow> bool" where
  "integer_column (PInt i) = (- 2147483648 \<le> i \<and> i \<le> 2147483647)"
| "integer_column PNone = True"
| "integer_column (PBool b) = True"
| "integer_column v = False"

definition insert_error :: "outside \<Rightarrow> pyval list \<Rightarrow> pyval \<Rightarrow> pyexc option" where
  "insert_error w texts qty =
     (if list_all text_column texts \<and> integer_column qty then insert_fault w
      else Some DataError)"

text \<open>Provider A. The whole body is inside \<^verbatim>\<open>try\<close>: whatever is raised, the refusal
  of the insert included, becomes the "exception" result.\<close>

definition request_creating_order_vp ::
  "outside \<Rightarrow> string \<Rightarrow> pyval \<Rightarrow> pyval \<Rightarrow> pyval \<Rightarrow> pyval \<Rightarrow> pyval \<Rightarrow> pyval \<Rightarrow> string \<Rightarrow>
   database \<Rightarrow> pyval \<times> database \<times> event list" where
  "request_creating_order_vp w url payload uid zid email qty prc pname db =
     (let post = HttpPost VIPAYMENT url payload;
          caught = (\<lambda>e. (create_exception uid e, db, [post]))
      in case reply w of
           NoReply m \<Rightarrow> caught (TransportError m)
         | Reply code body \<Rightarrow>
             if code = 200 then
               (case body of
                  None \<Rightarrow> caught JSONDecodeError
                | Some data \<Rightarrow>
                    (case py_item data ''result'' of
                       Inl e \<Rightarrow> caught e
                     | Inr res \<Rightarrow>
                         if eq_True res then
                           (case bind_py (py_item data ''data'') (\<lambda>d. py_item d ''trxid'') of
                              Inl e \<Rightarrow> caught e
                            | Inr vp_trxid \<Rightarrow>
                                (case json_dumps data of
                                   Inl e \<Rightarrow> caught e
                                 | Inr details \<Rightarrow>
                                     (case insert_error w [uid, zid, prc, vp_trxid, email]
                                             qty of
                                        Some e \<Rightarrow> caught e
                                      | None \<Rightarrow>
                                          (vp_trxid,
                                           createOrderVP uid zid qty prc pname ''VIPAYMENT''
                                             vp_trxid email ''waiting'' details db,
                                           [post, InsertOrder VIPAYMENT vp_trxid None]))))
                         else (warning_result ''order creation failed'' data, db, [post])))
             else (create_failed uid code, db, [post]))"

text \<open>Provider B. This function has no \<^verbatim>\<open>try\<close>: an exception leaves it and is caught
  by \<^verbatim>\<open>ServiceMoogold.create_order\<close>.\<close>

definition request_creating_order_mg ::
  "outside \<Rightarrow> string \<Rightarrow> pyval \<Rightarrow> pyval \<Rightarrow> pyval \<Rightarrow> pyval \<Rightarrow> pyval \<Rightarrow> pyval \<Rightarrow> string \<Rightarrow>
   database \<Rightarrow> pyval py \<times> database \<times> event list" where
  "request_creating_order_mg w url payload uid zid email qty prc pname db =
     (let post = HttpPost MOOGOLD url payload;
          raised = (\<lambda>e. (Inl e, db, [post]))
      in case reply w of
           NoReply m \<Rightarrow> raised (TransportError m)
         | Reply code body \<Rightarrow>
             if code = 200 then
               (case body of
                  None \<Rightarrow> raised JSONDecodeError
                | Some data \<Rightarrow>
                    (case py_item data ''status'' of
                       Inl e \<Rightarrow> raised e
                     | Inr st \<Rightarrow>
                         if eq_True st then
                           (case bind_py (py_item data ''account_details'')
                                   (\<lambda>d. py_item d ''order_id'') of
                              Inl e \<Rightarrow> raised e
                            | Inr mg_trxid \<Rightarrow>
                                (case json_dumps data of
                                   Inl e \<Rightarrow> raised e
                                 | Inr details \<Rightarrow>
                                     (case insert_error w [uid, zid, prc, mg_trxid, email]
                                             qty of
                                        Some e \<Rightarrow> raised e
                                      | None \<Rightarrow>
                                          (Inr mg_trxid,
                                           createOrderMG uid zid qty prc pname ''MOOGOLD''
                                             mg_trxid email ''processing'' details db,
                                           [post, InsertOrder MOOGOLD mg_trxid None]))))
                         else (Inr (warning_result ''order creation failed'' data), db, [post])))
             else (Inr (create_failed uid code), db, [post]))"

text \<open>Provider C. The identifiers are the caller's, not the provider's; success is the
  literal code \<^verbatim>\<open>APPLY_SUCCESS\<close>, and the result is the pair of identifiers.\<close>

definition request_creating_order_jm ::
  "outside \<Rightarrow> string \<Rightarrow> pyval \<Rightarrow> pyval \<Rightarrow> pyval \<Rightarrow> pyval \<Rightarrow> pyval \<Rightarrow> pyval \<Rightarrow> pyval \<Rightarrow> pyval \<Rightarrow>
   string \<Rightarrow> database \<Rightarrow> pyval \<times> database \<times> event list" where
  "request_creating_order_jm w url payload oid mid uid zid email qty prc pname db =
     (let post = HttpPost JOLLYMAX url payload;
          caught = (\<lambda>e. (create_exception uid e, db, [post]))
      in case reply w of
           NoReply m \<Rightarrow> caught (TransportError m)
         | Reply code body \<Rightarrow>
             if code = 200 then
               (case body of
                  None \<Rightarrow> caught JSONDecodeError
                | Some data \<Rightarrow>
                    (case py_item data ''code'' of
                       Inl e \<Rightarrow> caught e
                     | Inr c \<Rightarrow>
                         if eq_str c ''APPLY_SUCCESS'' then
                           (case json_dumps data of
                              Inl e \<Rightarrow> caught e
                            | Inr details \<Rightarrow>
                                (case insert_error w [uid, zid, prc, oid, mid, email] qty of
                                   Some e \<Rightarrow> caught e
                                 | None \<Rightarrow>
                                     (PTuple [oid, mid],
                                      createOrderJM uid zid qty prc pname ''JOLLYMAX'' oid mid
                                        email ''waiting'' details db,
                                      [post, InsertOrder JOLLYMAX oid (Some mid)])))
                         else (warning_result ''order creation failed'' data, db, [post])))
             else (create_failed uid code, db, [post]))"

text \<open>The three \<^verbatim>\<open>create_order\<close> methods build the payload and call the request
  function inside \<^verbatim>\<open>try\<close>. For provider A nothing can be raised there; provider B
  serializes its payload before the \<^verbatim>\<open>try\<close>; provider C draws its identifiers and
  signs the payload before the \<^verbatim>\<open>try\<close>.\<close>

definition ServiceVIPayment_create_order ::
  "outside \<Rightarrow> string \<Rightarrow> pyval \<Rightarrow> pyval \<Rightarrow> pyval \<Rightarrow> pyval \<Rightarrow> pyval \<Rightarrow> string \<Rightarrow>
   database \<Rightarrow> pyval \<times> database \<times> event list" where
  "ServiceVIPayment_create_order w service uid zid email qty prc pname db =
     request_creating_order_vp w ''/game-feature''
       (PDict [(''type'', PStr ''order''), (''service'', PStr service),
               (''data_no'', uid), (''data_zone'', zid)])
       uid zid email qty prc pname db"

definition ServiceMoogold_create_order ::
  "outside \<Rightarrow> string \<Rightarrow> pyval \<Rightarrow> pyval \<Rightarrow> pyval \<Rightarrow> pyval \<Rightarrow> pyval \<Rightarrow> string \<Rightarrow>
   database \<Rightarrow> pyval py \<times> database \<times> event list" where
  "ServiceMoogold_create_order w service uid zid email qty prc pname db =
     (let payload =
            PDict [(''path'', PStr ''order/create_order''),
                   (''data'', PDict [(''category'', PStr ''1''), (''product-id'', PStr service),
                                     (''quantity'', PStr ''1''), (''User ID'', uid),
                                     (''Server'', zid)])]
      in case json_dumps payload of
           Inl e \<Rightarrow> (Inl e, db, [])
         | Inr data \<Rightarrow>
             (case request_creating_order_mg w ''order/create_order'' payload
                     uid zid email qty prc pname db of
                (Inl e, db', evs) \<Rightarrow> (Inr (function_error ''create_order'' e), db', evs)
              | (Inr v, db', evs) \<Rightarrow> (Inr v, db', evs)))"

definition ServiceJollymax_create_order ::
  "outside \<Rightarrow> string \<Rightarrow> pyval \<Rightarrow> pyval \<Rightarrow> pyval \<Rightarrow> pyval \<Rightarrow> pyval \<Rightarrow> string \<Rightarrow>
   database \<Rightarrow> pyval py \<times> database \<times> event list" where
  "ServiceJollymax_create_order w service uid zid email qty prc pname db =
     (let oid = PStr (fst (unique_ids w));
          mid = PStr (snd (unique_ids w));
          payload =
            PDict [(''version'', PStr ''1.0''), (''keyVersion'', PStr ''1''),
                   (''data'', PDict [(''outOrderId'', oid), (''code'', PStr service),
                                     (''quantity'', PInt 1),
                                     (''tradeInfo'', PDict [(''userId'', uid), (''serverId'', zid),
                                                            (''role_id'', PStr [])]),
                                     (''messageId'', mid)])]
      in case signing w of
           Some e \<Rightarrow> (Inl e, db, [])
         | None \<Rightarrow>
             (case json_dumps payload of
                Inl e \<Rightarrow> (Inl e, db, [])
              | Inr payload_json \<Rightarrow>
                  (case request_creating_order_jm w ''/distribute-order-create'' payload
                          oid mid uid zid email qty prc pname db of
                     (v, db', evs) \<Rightarrow> (Inr v, db', evs))))"

section \<open>The orchestrator and the endpoint (\<^verbatim>\<open>main.py\<close>)\<close>

definition create_order_error :: "pyexc \<Rightarrow> pyval" where
  "create_order_error e =
     JSONResponse 500 (PDict [(''status'', PStr ''error''), (''message'', PStr ''create order''),
                              (''data'', ErrText e)])"

definition invalid_service_code :: pyval where
  "invalid_service_code =
     JSONResponse 400 (PDict [(''status'', PStr ''error''),
                              (''message'', PStr ''Invalid service code'')])"

text \<open>\<^verbatim>\<open>service_create_order\<close>: the three-way dispatch on the service code. In each
  branch the notifier is awaited first, then the service's \<^verbatim>\<open>create_order\<close>; an
  exception that leaves the service is turned into the 500 response by the handler of
  this function. The last branch returns the 400 response as its value.\<close>

definition service_create_order ::
  "config \<Rightarrow> outside \<Rightarrow> string \<Rightarrow> string \<Rightarrow> pyval \<Rightarrow> pyval \<Rightarrow> pyval \<Rightarrow> pyval \<Rightarrow> pyval \<Rightarrow>
   string \<Rightarrow> database \<Rightarrow> pyval \<times> database \<times> event list" where
  "service_create_order cfg w service_code product_code uid zid email qty prc product_name db =
     (if service_code = ''VP'' then
        (case ServiceVIPayment_create_order w product_code uid zid email qty prc
                product_name db of
           (v, db', evs) \<Rightarrow>
             (v, db',
              send_message_order cfg (NewOrder ''VIPayment'' product_name uid qty prc) @ evs))
      else if service_code = ''MG'' then
        (case ServiceMoogold_create_order w product_code uid zid email qty prc
                product_name db of
           (r, db', evs) \<Rightarrow>
             ((case r of Inl e \<Rightarrow> create_order_error e | Inr v \<Rightarrow> v), db',
              send_message_order cfg (NewOrder ''Moogold'' product_name uid qty prc) @ evs))
      else if service_code = ''JM'' then
        (case ServiceJollymax_create_order w product_code uid zid email qty prc
                product_name db of
           (r, db', evs) \<Rightarrow>
             ((case r of Inl e \<Rightarrow> create_order_error e | Inr v \<Rightarrow> v), db',
              send_message_order cfg (NewOrder ''JollyMax'' product_name uid qty prc) @ evs))
      else (invalid_service_code, db, []))"

text \<open>The endpoint, first its validation: the early response it returns, or the
  arguments it passes on (service code, product code, product name, user, zone, email,
  quantity, price); any exception is caught by the outer handler of the endpoint.\<close>

definition bad_request :: "string \<Rightarrow> pyval \<Rightarrow> pyval py" where
  "bad_request msg data =
     json_response 400 (PDict [(''status'', PStr ''error''), (''message'', PStr msg),
                               (''data'', data)])"

type_synonym order_request =
  "string \<times> string \<times> string \<times> pyval \<times> pyval \<times> pyval \<times> pyval \<times> pyval"

definition skyshop_validate :: "pyval \<Rightarrow> (pyval + order_request) py" where
  "skyshop_validate data =
     bind_py (py_get data ''Input'') (\<lambda>uid.
     bind_py (py_get data ''Zone_ID'') (\<lambda>zid.
     bind_py (py_get data ''Email'') (\<lambda>email.
       if \<not> (truthy uid \<and> truthy zid \<and> truthy email)
       then bind_py (bad_request ''missing parameters'' data) (\<lambda>r. Inr (Inl r))
       else
     bind_py (py_item data ''payment'') (\<lambda>payment.
     bind_py (py_get_default payment ''products'' (PList [])) (\<lambda>products.
       if \<not> truthy products
       then bind_py (bad_request ''missing products'' data) (\<lambda>r. Inr (Inl r))
       else
     bind_py (py_first products) (\<lambda>first_product.
     bind_py (py_get first_product ''name'') (\<lambda>product_name_full.
     bind_py (py_get first_product ''quantity'') (\<lambda>qty.
     bind_py (py_get first_product ''price'') (\<lambda>prc.
       if \<not> (truthy product_name_full \<and> truthy qty \<and> truthy prc)
       then bind_py (bad_request ''missing product parameters'' data) (\<lambda>r. Inr (Inl r))
       else
     bind_py (py_split_plus product_name_full) (\<lambda>product_info.
       if length product_info < 3
       then bind_py (bad_request ''missing product info'' data) (\<lambda>r. Inr (Inl r))
       else Inr (Inr (product_info ! 0, product_info ! 1, product_info ! 2,
                      uid, zid, email, qty, prc))))))))))))"

definition request_data_error :: "pyexc \<Rightarrow> pyval" where
  "request_data_error e =
     JSONResponse 500 (PDict [(''status'', PStr ''error''), (''message'', PStr ''request data''),
                              (''data'', ErrText e)])"

text \<open>\<^verbatim>\<open>skyshop_api\<close>: the body of the request is \<open>None\<close> when \<^verbatim>\<open>request.json()\<close>
  raises. The key \<^verbatim>\<open>test\<close> is looked for before anything else. The result of
  \<^verbatim>\<open>service_create_order\<close> is wrapped into the 200 response inside the inner
  \<^verbatim>\<open>try\<close>, whose handler answers 500 when the response cannot be built.\<close>

definition skyshop_api ::
  "config \<Rightarrow> outside \<Rightarrow> pyval option \<Rightarrow> database \<Rightarrow> pyval \<times> database \<times> event list" where
  "skyshop_api cfg w body db =
     (case body of
        None \<Rightarrow> (request_data_error JSONDecodeError, db, [])
      | Some data \<Rightarrow>
          (case py_in ''test'' data of
             Inl e \<Rightarrow> (request_data_error e, db, [])
           | Inr True \<Rightarrow>
               (case bind_py (py_item data ''test'') (\<lambda>t.
                       json_response 200
                         (PDict [(''status'', PStr ''success''),
                                 (''message'', PStr ''testing request successfully''),
                                 (''data'', PDict [(''test'', t)])])) of
                  Inl e \<Rightarrow> (request_data_error e, db, [])
                | Inr r \<Rightarrow> (r, db, []))
           | Inr False \<Rightarrow>
               (case skyshop_validate data of
                  Inl e \<Rightarrow> (request_data_error e, db, [])
                | Inr (Inl r) \<Rightarrow> (r, db, [])
                | Inr (Inr (service_code, product_code, product_name, uid, zid, email, qty, prc)) \<Rightarrow>
                    (case service_create_order cfg w service_code product_code uid zid email
                            qty prc product_name db of
                       (response, db', evs) \<Rightarrow>
                         (case json_response 200
                                 (PDict [(''status'', PStr ''success''),
                                         (''message'', PStr ''order created''),
                                         (''data'', response)]) of
                            Inl e \<Rightarrow> (create_order_error e, db', evs)
                          | Inr r \<Rightarrow> (r, db', evs))))))"

section \<open>Checking an order (\<^verbatim>\<open>req_methods.py\<close> and the three services)\<close>

definition check_failed :: "int \<Rightarrow> pyval" where
  "check_failed code =
     PDict [(''status'', PStr ''error''), (''message'', PStr ''the request failed''),
            (''data'', HttpxResponse code)]"

definition check_exception :: "pyexc \<Rightarrow> pyval" where
  "check_exception e =
     PDict [(''status'', PStr ''exception''),
            (''message'', PStr ''function error: (checking order)''), (''data'', ErrText e)]"

text \<open>Provider A returns the provider's document when its \<^verbatim>\<open>result\<close> is true, and a
  wrapper around it otherwise.\<close>

definition request_checking_order_vp :: "http_reply \<Rightarrow> string \<Rightarrow> pyval \<Rightarrow> pyval \<times> event list" where
  "request_checking_order_vp rp url payload =
     (let post = HttpPost VIPAYMENT url payload
      in case rp of
           NoReply m \<Rightarrow> (check_exception (TransportError m), [post])
         | Reply code body \<Rightarrow>
             if code = 200 then
               (case body of
                  None \<Rightarrow> (check_exception JSONDecodeError, [post])
                | Some data \<Rightarrow>
                    (case py_item data ''result'' of
                       Inl e \<Rightarrow> (check_exception e, [post])
                     | Inr res \<Rightarrow>
                         if eq_True res then (data, [post])
                         else (warning_result ''order check failed'' data, [post])))
             else (check_failed code, [post]))"

text \<open>Provider B returns the provider's document only when its \<^verbatim>\<open>order_status\<close> is
  the literal \<^verbatim>\<open>completed\<close>. In the other branch the log line reads
  \<^verbatim>\<open>data['order_status']\<close> before the wrapper is returned, which raises when the key is
  not there.\<close>

definition request_checking_order_mg :: "http_reply \<Rightarrow> string \<Rightarrow> pyval \<Rightarrow> pyval \<times> event list" where
  "request_checking_order_mg rp url payload =
     (let post = HttpPost MOOGOLD url payload
      in case rp of
           NoReply m \<Rightarrow> (check_exception (TransportError m), [post])
         | Reply code body \<Rightarrow>
             if code = 200 then
               (case body of
                  None \<Rightarrow> (check_exception JSONDecodeError, [post])
                | Some data \<Rightarrow>
                    (case bind_py (py_in ''order_status'' data) (\<lambda>present.
                            if present
                            then bind_py (py_item data ''order_status'')
                                   (\<lambda>s. Inr (eq_str s ''completed''))
                            else Inr False) of
                       Inl e \<Rightarrow> (check_exception e, [post])
                     | Inr True \<Rightarrow> (data, [post])
                     | Inr False \<Rightarrow>
                         (case py_item data ''order_status'' of
                            Inl e \<Rightarrow> (check_exception e, [post])
                          | Inr s \<Rightarrow> (warning_result ''order not paid'' data, [post]))))
             else (check_failed code, [post]))"

text \<open>Provider C returns the provider's document when its \<^verbatim>\<open>code\<close> is
  \<^verbatim>\<open>APPLY_SUCCESS\<close>, and a wrapper around it otherwise.\<close>

definition request_checking_order_jm :: "http_reply \<Rightarrow> string \<Rightarrow> pyval \<Rightarrow> pyval \<times> event list" where
  "request_checking_order_jm rp url payload =
     (let post = HttpPost JOLLYMAX url payload
      in case rp of
           NoReply m \<Rightarrow> (check_exception (TransportError m), [post])
         | Reply code body \<Rightarrow>
             if code = 200 then
               (case body of
                  None \<Rightarrow> (check_exception JSONDecodeError, [post])
                | Some data \<Rightarrow>
                    (case py_item data ''code'' of
                       Inl e \<Rightarrow> (check_exception e, [post])
                     | Inr c \<Rightarrow>
                         if eq_str c ''APPLY_SUCCESS'' then (data, [post])
                         else (warning_result ''order not paid'' data, [post])))
             else (check_failed code, [post]))"

definition ServiceVIPayment_check_order :: "http_reply \<Rightarrow> pyval \<Rightarrow> pyval \<times> event list" where
  "ServiceVIPayment_check_order rp oid =
     request_checking_order_vp rp ''/game-feature''
       (PDict [(''type'', PStr ''status''), (''trxid'', oid)])"

definition ServiceMoogold_check_order :: "http_reply \<Rightarrow> pyval \<Rightarrow> pyval py \<times> event list" where
  "ServiceMoogold_check_order rp oid =
     (let payload = PDict [(''path'', PStr ''order/order_detail''), (''order_id'', oid)]
      in case json_dumps payload of
           Inl e \<Rightarrow> (Inl e, [])
         | Inr data \<Rightarrow>
             (case request_checking_order_mg rp ''order/order_detail'' payload of
                (v, evs) \<Rightarrow> (Inr v, evs)))"

definition ServiceJollymax_check_order ::
  "pyexc option \<Rightarrow> http_reply \<Rightarrow> pyval \<Rightarrow> pyval \<Rightarrow> pyval py \<times> event list" where
  "ServiceJollymax_check_order sg rp oid mid =
     (let payload =
            PDict [(''version'', PStr ''1.0''), (''keyVersion'', PStr ''1''),
                   (''data'', PDict [(''outOrderId'', oid), (''messageId'', mid)])]
      in case sg of
           Some e \<Rightarrow> (Inl e, [])
         | None \<Rightarrow>
             (case json_dumps payload of
                Inl e \<Rightarrow> (Inl e, [])
              | Inr payload_json \<Rightarrow>
                  (case request_checking_order_jm rp ''/distribute-order-query'' payload of
                     (v, evs) \<Rightarrow> (Inr v, evs))))"

section \<open>The reconciliation scheduler (\<^verbatim>\<open>check_order_status\<close>)\<close>

text \<open>The providers during one sweep. Each loop sends one request per selected row:
  for each provider, what it answers to the \<open>k\<close>-th request of its loop (counted from
  0), and whether signing the \<open>k\<close>-th request of provider C raises.\<close>

record stubs =
  vp_stub :: "nat \<Rightarrow> http_reply"
  mg_stub :: "nat \<Rightarrow> http_reply"
  jm_stub :: "nat \<Rightarrow> http_reply"
  jm_signing :: "nat \<Rightarrow> pyexc option"

text \<open>The status that the loop body reads from the result of \<^verbatim>\<open>check_order\<close>.
  Provider A: \<open>None\<close> when the guard \<^verbatim>\<open>orderData.get("result") and
  isinstance(orderData.get("data"), list)\<close> fails, else the \<^verbatim>\<open>status\<close> of the first
  element of the list (of the empty dict when the list is empty).
  Provider B: the top-level \<^verbatim>\<open>order_status\<close>. Provider C: \<^verbatim>\<open>status\<close> below
  \<^verbatim>\<open>data\<close>.\<close>

definition vp_new_status :: "pyval \<Rightarrow> pyval option py" where
  "vp_new_status orderData =
     bind_py (py_get orderData ''result'') (\<lambda>res.
       if \<not> truthy res then Inr None
       else bind_py (py_get orderData ''data'') (\<lambda>d.
         case d of
           PList xs \<Rightarrow>
             bind_py (if truthy d then py_first d else Inr (PDict [])) (\<lambda>data_item.
             bind_py (py_item data_item ''status'') (\<lambda>new_status. Inr (Some new_status)))
         | _ \<Rightarrow> Inr None))"

definition mg_new_status :: "pyval \<Rightarrow> pyval py" where
  "mg_new_status orderData = py_get orderData ''order_status''"

definition jm_new_status :: "pyval \<Rightarrow> pyval py" where
  "jm_new_status orderData = bind_py (py_item orderData ''data'') (\<lambda>d. py_get d ''status'')"

text \<open>The columns that the loop body writes: the status when it is in the vocabulary,
  with the serialized result of \<^verbatim>\<open>check_order\<close>; \<open>None\<close> when it logs a warning and
  writes nothing.\<close>

definition new_columns :: "string list \<Rightarrow> pyval \<Rightarrow> pyval \<Rightarrow> (string \<times> json_text) option py" where
  "new_columns statuses orderData new_status =
     (case accepted new_status statuses of
        None \<Rightarrow> Inr None
      | Some s \<Rightarrow> bind_py (json_dumps orderData) (\<lambda>details. Inr (Some (s, details))))"

text \<open>The \<^verbatim>\<open>try\<close> block of each loop body up to its update, given the provider's
  reply to its request: the exception it raises, \<open>None\<close> when it only logs a warning,
  or the columns it is about to write; and the requests it has sent.\<close>

definition vp_check ::
  "config \<Rightarrow> http_reply \<Rightarrow> pyval \<Rightarrow> (string \<times> json_text) option py \<times> event list" where
  "vp_check cfg rp oid =
     (case ServiceVIPayment_check_order rp oid of
        (orderData, evs) \<Rightarrow>
          (bind_py (vp_new_status orderData) (\<lambda>extracted.
             case extracted of
               None \<Rightarrow> Inr None
             | Some new_status \<Rightarrow> new_columns (VP_STATUSES cfg) orderData new_status),
           evs))"

definition mg_check ::
  "config \<Rightarrow> http_reply \<Rightarrow> pyval \<Rightarrow> (string \<times> json_text) option py \<times> event list" where
  "mg_check cfg rp oid =
     (case ServiceMoogold_check_order rp oid of
        (r, evs) \<Rightarrow>
          (bind_py r (\<lambda>orderData.
             bind_py (mg_new_status orderData) (\<lambda>new_status.
               new_columns (MG_STATUSES cfg) orderData new_status)),
           evs))"

definition jm_check ::
  "config \<Rightarrow> pyexc option \<Rightarrow> http_reply \<Rightarrow> pyval \<Rightarrow> pyval \<Rightarrow>
   (string \<times> json_text) option py \<times> event list" where
  "jm_check cfg sg rp oid mid =
     (case ServiceJollymax_check_order sg rp oid mid of
        (r, evs) \<Rightarrow>
          (bind_py r (\<lambda>orderData.
             bind_py (jm_new_status orderData) (\<lambda>new_status.
               new_columns (JM_STATUSES cfg) orderData new_status)),
           evs))"

text \<open>The three loop bodies. Each is one \<^verbatim>\<open>try\<close>: an exception anywhere in it is
  caught, logged, and the loop goes on with the next order, the store as it was.\<close>

definition check_vp_order ::
  "config \<Rightarrow> http_reply \<Rightarrow> BaseOrder \<Rightarrow> database \<Rightarrow> database \<times> event list" where
  "check_vp_order cfg rp vp_order db =
     (let oid = order_id vp_order
      in case vp_check cfg rp oid of
           (Inr (Some (s, details)), evs) \<Rightarrow>
             (updateOrderVP oid (Some s) (Some details) db,
              evs @ [UpdateOrder VIPAYMENT oid None])
         | (Inr None, evs) \<Rightarrow> (db, evs)
         | (Inl e, evs) \<Rightarrow> (db, evs))"

definition check_mg_order ::
  "config \<Rightarrow> http_reply \<Rightarrow> BaseOrder \<Rightarrow> database \<Rightarrow> database \<times> event list" where
  "check_mg_order cfg rp mg_order db =
     (let oid = order_id mg_order
      in case mg_check cfg rp oid of
           (Inr (Some (s, details)), evs) \<Rightarrow>
             (updateOrderMG oid (Some s) (Some details) db,
              evs @ [UpdateOrder MOOGOLD oid None])
         | (Inr None, evs) \<Rightarrow> (db, evs)
         | (Inl e, evs) \<Rightarrow> (db, evs))"

definition check_jm_order ::
  "config \<Rightarrow> pyexc option \<Rightarrow> http_reply \<Rightarrow> BaseOrderJM \<Rightarrow> database \<Rightarrow>
   database \<times> event list" where
  "check_jm_order cfg sg rp jm_order db =
     (let oid = order_id jm_order; mid = message_id jm_order
      in case jm_check cfg sg rp oid mid of
           (Inr (Some (s, details)), evs) \<Rightarrow>
             (updateOrderJM oid mid (Some s) (Some details) db,
              evs @ [UpdateOrder JOLLYMAX oid (Some mid)])
         | (Inr None, evs) \<Rightarrow> (db, evs)
         | (Inl e, evs) \<Rightarrow> (db, evs))"

text \<open>A \<^verbatim>\<open>for\<close> loop: the body of each iteration runs on the store that the
  iterations before it have left.\<close>

fun for_orders ::
  "('r \<Rightarrow> database \<Rightarrow> database \<times> event list) \<Rightarrow> 'r list \<Rightarrow> database \<Rightarrow> database \<times> event list"
  where
  "for_orders body [] db = (db, [])"
| "for_orders body (r # rs) db =
     (case body r db of
        (db', evs) \<Rightarrow> (case for_orders body rs db' of (db'', evs') \<Rightarrow> (db'', evs @ evs')))"

text \<open>The three loops of a sweep: the \<open>k\<close>-th iteration checks the \<open>k\<close>-th selected
  row with the provider's \<open>k\<close>-th reply.\<close>

definition vp_loop :: "config \<Rightarrow> stubs \<Rightarrow> BaseOrder list \<Rightarrow> database \<Rightarrow> database \<times> event list"
  where
  "vp_loop cfg st vp_selected db =
     for_orders (\<lambda>(k, vp_order). check_vp_order cfg (vp_stub st k) vp_order)
       (enumerate 0 vp_selected) db"

definition mg_loop :: "config \<Rightarrow> stubs \<Rightarrow> BaseOrder list \<Rightarrow> database \<Rightarrow> database \<times> event list"
  where
  "mg_loop cfg st mg_selected db =
     for_orders (\<lambda>(k, mg_order). check_mg_order cfg (mg_stub st k) mg_order)
       (enumerate 0 mg_selected) db"

definition jm_loop ::
  "config \<Rightarrow> stubs \<Rightarrow> BaseOrderJM list \<Rightarrow> database \<Rightarrow> database \<times> event list" where
  "jm_loop cfg st jm_selected db =
     for_orders (\<lambda>(k, jm_order). check_jm_order cfg (jm_signing st k) (jm_stub st k) jm_order)
       (enumerate 0 jm_selected) db"

text \<open>One iteration of \<^verbatim>\<open>while True\<close>: the three selections first, then the three
  loops in turn.\<close>

definition sweep :: "config \<Rightarrow> stubs \<Rightarrow> database \<Rightarrow> database \<times> event list" where
  "sweep cfg st db =
     (let vp_selected = getOrderStatusVP ''waiting'' db;
          mg_selected = getOrderStatusMG ''processing'' db;
          jm_selected = getOrderStatusJM ''waiting'' db
      in case vp_loop cfg st vp_selected db of
           (db1, evs1) \<Rightarrow>
             (case mg_loop cfg st mg_selected db1 of
                (db2, evs2) \<Rightarrow>
                  (case jm_loop cfg st jm_selected db2 of
                     (db3, evs3) \<Rightarrow> (db3, evs1 @ evs2 @ evs3))))"

text \<open>\<^verbatim>\<open>check_order_status\<close> never returns: it sweeps, sleeps 120 seconds and sweeps
  again. With the providers of each iteration given, this is the store and the effects
  after the first \<open>n\<close> iterations, counted from iteration \<open>k\<close>.\<close>

fun check_order_status ::
  "config \<Rightarrow> (nat \<Rightarrow> stubs) \<Rightarrow> nat \<Rightarrow> nat \<Rightarrow> database \<Rightarrow> database \<times> event list" where
  "check_order_status cfg sts k 0 db = (db, [])"
| "check_order_status cfg sts k (Suc n) db =
     (case sweep cfg (sts k) db of
        (db', evs) \<Rightarrow>
          (case check_order_status cfg sts (Suc k) n db' of (db'', evs') \<Rightarrow> (db'', evs @ evs')))"

section \<open>Derived notions used in the statements\<close>

text \<open>What a loop body does with the result of its \<^verbatim>\<open>try\<close> block: the columns it
  writes, or nothing (a warning, or a caught exception).\<close>

definition outcome :: "(string \<times> json_text) option py \<Rightarrow> (string \<times> json_text) option" where
  "outcome r = (case r of Inr (Some c) \<Rightarrow> Some c | Inr None \<Rightarrow> None | Inl e \<Rightarrow> None)"

text \<open>A check that fails: the request raises, the answer is not a 200, or its body
  does not parse (the service then returns an "exception" or "error" result); for
  provider A also when the loop body itself raises.\<close>

definition check_fails :: "http_reply \<Rightarrow> bool" where
  "check_fails rp = (case rp of NoReply m \<Rightarrow> True | Reply code body \<Rightarrow> code \<noteq> 200 \<or> body = None)"

definition vp_check_fails :: "config \<Rightarrow> http_reply \<Rightarrow> pyval \<Rightarrow> bool" where
  "vp_check_fails cfg rp oid \<longleftrightarrow> check_fails rp \<or> isl (fst (vp_check cfg rp oid))"

text \<open>A notification among the effects; the label that each branch of
  \<^verbatim>\<open>service_create_order\<close> puts into its text; the effects of the
  \<^verbatim>\<open>create_order\<close> that the branch calls.\<close>

fun is_notification :: "event \<Rightarrow> bool" where
  "is_notification (SendMessage u n) = True"
| "is_notification e = False"

definition service_label :: "string \<Rightarrow> string" where
  "service_label sc =
     (if sc = ''VP'' then ''VIPayment'' else if sc = ''MG'' then ''Moogold'' else ''JollyMax'')"

definition create_order_events ::
  "outside \<Rightarrow> string \<Rightarrow> string \<Rightarrow> pyval \<Rightarrow> pyval \<Rightarrow> pyval \<Rightarrow> pyval \<Rightarrow> pyval \<Rightarrow> string \<Rightarrow>
   database \<Rightarrow> event list" where
  "create_order_events w sc pc uid zid email qty prc pn db =
     (if sc = ''VP''
      then snd (snd (ServiceVIPayment_create_order w pc uid zid email qty prc pn db))
      else if sc = ''MG''
      then snd (snd (ServiceMoogold_create_order w pc uid zid email qty prc pn db))
      else snd (snd (ServiceJollymax_create_order w pc uid zid email qty prc pn db)))"

text \<open>A field of a JSON object. A request body that lacks a required field: the user,
  the zone, the email, the payment, its product list (absent or empty), or the name,
  the quantity or the price of its first product.\<close>

fun field :: "pyval \<Rightarrow> string \<Rightarrow> pyval option" where
  "field (PDict kvs) k = map_of kvs k"
| "field v k = None"

fun product_lacks :: "pyval \<Rightarrow> bool" where
  "product_lacks (PList []) = True"
| "product_lacks (PList (p # ps)) =
     (field p ''name'' = None \<or> field p ''quantity'' = None \<or> field p ''price'' = None)"
| "product_lacks v = False"

definition missing_required_field :: "pyval \<Rightarrow> bool" where
  "missing_required_field data \<longleftrightarrow>
     field data ''Input'' = None \<or> field data ''Zone_ID'' = None \<or>
     field data ''Email'' = None \<or>
     (case field data ''payment'' of
        None \<Rightarrow> True
      | Some payment \<Rightarrow>
          (case field payment ''products'' of
             None \<Rightarrow> True
           | Some products \<Rightarrow> product_lacks products))"


section \<open>Concrete inputs used below\<close>

definition gift_vp :: "pyval \<Rightarrow> database \<Rightarrow> database" where
  "gift_vp oid db =
     createOrderVP (PStr ''u1'') (PStr ''z1'') (PInt 1) (PStr ''10.00'') ''Gift Card''
       ''VIPAYMENT'' oid (PStr ''e@x.com'') ''waiting'' (Dumps PNone) db"

definition gift_mg :: "pyval \<Rightarrow> database \<Rightarrow> database" where
  "gift_mg oid db =
     createOrderMG (PStr ''u1'') (PStr ''z1'') (PInt 1) (PStr ''10.00'') ''Gift Card''
       ''MOOGOLD'' oid (PStr ''e@x.com'') ''processing'' (Dumps PNone) db"

definition gift_jm :: "pyval \<Rightarrow> pyval \<Rightarrow> database \<Rightarrow> database" where
  "gift_jm oid mid db =
     createOrderJM (PStr ''u1'') (PStr ''z1'') (PInt 1) (PStr ''10.00'') ''Gift Card''
       ''JOLLYMAX'' oid mid (PStr ''e@x.com'') ''waiting'' (Dumps PNone) db"


definition cfg0 :: config where
  "cfg0 = \<lparr>TG_ADMINS = [PInt 11, PInt 12], VP_STATUSES = [''success'', ''error''],
           MG_STATUSES = [''completed'', ''refunded''],
           JM_STATUSES = [''SUCCESS'', ''FAILED'']\<rparr>"

text \<open>A store with one open order of each provider.\<close>

definition db0 :: database where
  "db0 = gift_jm (PStr ''J1'') (PStr ''M1'')
           (gift_mg (PStr ''MG-9'') (gift_vp (PStr ''T1'') empty_db))"

text \<open>Provider replies: an order that the provider reports as refunded, as completed,
  and a rejected creation.\<close>

definition mg_refunded :: pyval where
  "mg_refunded = PDict [(''order_id'', PStr ''MG-9''), (''order_status'', PStr ''refunded'')]"

definition mg_completed :: pyval where
  "mg_completed = PDict [(''order_id'', PStr ''MG-9''), (''order_status'', PStr ''completed'')]"

definition jm_paid :: pyval where
  "jm_paid = PDict [(''code'', PStr ''APPLY_SUCCESS''),
                    (''data'', PDict [(''status'', PStr ''SUCCESS'')])]"

definition jm_unknown :: pyval where
  "jm_unknown = PDict [(''code'', PStr ''APPLY_SUCCESS''),
                       (''data'', PDict [(''status'', PStr ''ON_HOLD'')])]"

definition vp_unknown :: pyval where
  "vp_unknown = PDict [(''result'', PBool True),
                       (''data'', PList [PDict [(''trxid'', PStr ''T1''),
                                                (''status'', PStr ''on hold'')]])]"

definition rejected :: pyval where
  "rejected = PDict [(''result'', PBool False), (''status'', PBool False),
                     (''code'', PStr ''BALANCE_NOT_ENOUGH''), (''message'', PStr ''no funds'')]"

text \<open>Provider stubs for one sweep: provider A unreachable while B and C answer with a
  final status; provider B reporting a refund.\<close>

definition st_a_down :: stubs where
  "st_a_down = \<lparr>vp_stub = (\<lambda>k. NoReply ''connect timeout''),
                 mg_stub = (\<lambda>k. Reply 200 (Some mg_completed)),
                 jm_stub = (\<lambda>k. Reply 200 (Some jm_paid)),
                 jm_signing = (\<lambda>k. None)\<rparr>"

definition st_refunded :: stubs where
  "st_refunded = \<lparr>vp_stub = (\<lambda>k. NoReply ''connect timeout''),
                   mg_stub = (\<lambda>k. Reply 200 (Some mg_refunded)),
                   jm_stub = (\<lambda>k. NoReply ''connect timeout''),
                   jm_signing = (\<lambda>k. None)\<rparr>"

text \<open>A store with two open orders of provider A under one handle, and a sweep in which
  the provider answers the first check with a status outside the vocabulary and the
  second with an accepted one.\<close>

definition vp_success :: pyval where
  "vp_success = PDict [(''result'', PBool True),
                       (''data'', PList [PDict [(''trxid'', PStr ''T1''),
                                                (''status'', PStr ''success'')]])]"

definition db_dup :: database where
  "db_dup = gift_vp (PStr ''T1'') (gift_vp (PStr ''T1'') empty_db)"

definition st_dup :: stubs where
  "st_dup = \<lparr>vp_stub = (\<lambda>k. if k = 0 then Reply 200 (Some vp_unknown)
                              else Reply 200 (Some vp_success)),
              mg_stub = (\<lambda>k. NoReply ''connect timeout''),
              jm_stub = (\<lambda>k. NoReply ''connect timeout''),
              jm_signing = (\<lambda>k. None)\<rparr>"

text \<open>A store with two open orders of each provider, those of provider C under one order
  identifier and two message identifiers; and a sweep in which each provider answers one
  of its two checks with an accepted status and the other with a status outside the
  vocabulary.\<close>

definition db_two :: database where
  "db_two = gift_jm (PStr ''J1'') (PStr ''M2'') (gift_jm (PStr ''J1'') (PStr ''M1'')
              (gift_mg (PStr ''MG-10'') (gift_mg (PStr ''MG-9'')
                (gift_vp (PStr ''T2'') (gift_vp (PStr ''T1'') empty_db)))))"

definition st_mixed :: stubs where
  "st_mixed = \<lparr>vp_stub = (\<lambda>k. if k = 0 then Reply 200 (Some vp_unknown)
                                else Reply 200 (Some vp_success)),
                mg_stub = (\<lambda>k. if k = 0 then Reply 200 (Some mg_completed)
                                else Reply 200 (Some (PDict [(''order_status'',
                                                               PStr ''pending'')]))),
                jm_stub = (\<lambda>k. if k = 0 then Reply 200 (Some jm_unknown)
                                else Reply 200 (Some jm_paid)),
                jm_signing = (\<lambda>k. None)\<rparr>"

text \<open>The world at a creation that the provider rejects with a 200.\<close>

definition w_rejected :: outside where
  "w_rejected = \<lparr>reply = Reply 200 (Some rejected), unique_ids = (''J1'', ''M1''),
                  signing = None, insert_fault = None\<rparr>"

text \<open>The world at two creations that provider A answers with the same transaction
  identifier.\<close>

definition vp_created :: pyval where
  "vp_created = PDict [(''result'', PBool True), (''data'', PDict [(''trxid'', PStr ''T1'')])]"

definition w_created :: outside where
  "w_created = \<lparr>reply = Reply 200 (Some vp_created), unique_ids = (''J1'', ''M1''),
                 signing = None, insert_fault = None\<rparr>"

text \<open>Request bodies: without the quantity of the product, with the key \<^verbatim>\<open>test\<close>
  and without an email, without an email, with an unknown service code, with a test
  value that is not finite (the literal \<^verbatim>\<open>1e400\<close>), and without an email but with
  such a value in another field.\<close>

definition no_quantity :: pyval where
  "no_quantity =
     PDict [(''Input'', PStr ''u1''), (''Zone_ID'', PStr ''z1''), (''Email'', PStr ''e@x.com''),
            (''payment'', PDict [(''products'',
               PList [PDict [(''name'', PStr ''MG+123+Gift Card''),
                             (''price'', PStr ''10.00'')]])])]"

definition test_no_email :: pyval where
  "test_no_email =
     PDict [(''test'', PInt 1), (''Input'', PStr ''u1''), (''Zone_ID'', PStr ''z1'')]"

definition no_email :: pyval where
  "no_email =
     PDict [(''Input'', PStr ''u1''), (''Zone_ID'', PStr ''z1''),
            (''payment'', PDict [(''products'',
               PList [PDict [(''name'', PStr ''MG+123+Gift Card''), (''quantity'', PInt 1),
                             (''price'', PStr ''10.00'')]])])]"

definition test_infinity :: pyval where
  "test_infinity = PDict [(''test'', PNonFinite PosInf)]"

definition no_email_infinity :: pyval where
  "no_email_infinity =
     PDict [(''Input'', PStr ''u1''), (''Zone_ID'', PStr ''z1''), (''note'', PNonFinite PosInf)]"

definition unknown_code :: pyval where
  "unknown_code =
     PDict [(''Input'', PStr ''u1''), (''Zone_ID'', PStr ''z1''), (''Email'', PStr ''e@x.com''),
            (''payment'', PDict [(''products'',
               PList [PDict [(''name'', PStr ''XX+123+Gift Card''), (''quantity'', PInt 1),
                             (''price'', PStr ''10.00'')]])])]"


section \<open>Properties\<close>

subsection \<open>The store\<close>

lemma filter_eq_Nil_map: "filter (\<lambda>r. f r = k) xs = [] \<longleftrightarrow> k \<notin> set (map f xs)"
  by (induction xs) auto

lemma order_id_set_columns:
  "order_id \<circ> (\<lambda>r. if P r then set_columns st d r else r) = order_id"
  by (auto simp: fun_eq_iff set_columns_def)

lemma handle_jm_set_columns:
  "handle_jm \<circ> (\<lambda>r. if P r then set_columns st d r else r) = handle_jm"
  by (auto simp: fun_eq_iff set_columns_def handle_jm_def)

lemma rows_jm_handle:
  "rows_jm oid mid db = filter (\<lambda>r. handle_jm r = (oid, mid)) (jm_orders db)"
  by (simp add: rows_jm_def handle_jm_def)

lemma filter_map_other:
  "(\<And>r. P r \<Longrightarrow> \<not> Q r \<and> \<not> Q (f r)) \<Longrightarrow>
   filter Q (map (\<lambda>r. if P r then f r else r) xs) = filter Q xs"
  by (induction xs) auto

lemma find_by_filter:
  "find P xs = (case filter P xs of [] \<Rightarrow> None | x # ys \<Rightarrow> Some x)"
  by (induction xs) auto

lemma rows_jm_update_other:
  "(oid', mid') \<noteq> (oid, mid) \<Longrightarrow>
   rows_jm oid' mid' (updateOrderJM oid mid st d db) = rows_jm oid' mid' db"
  unfolding rows_jm_def updateOrderJM_def
  by (auto intro!: filter_map_other simp: set_columns_def)

lemma getOrderIdJM_rows:
  "getOrderIdJM oid mid db = (case rows_jm oid mid db of [] \<Rightarrow> None | x # ys \<Rightarrow> Some x)"
  by (simp add: getOrderIdJM_def rows_jm_def find_by_filter)

text \<open>
  C1: the store is to hold one row per handle, and a second create with the same handle
  is never to yield two rows. \<^verbatim>\<open>models.py\<close> calls \<^verbatim>\<open>order_id\<close> the unique order
  identifier, but declares no unique column, and the inserts are unconditional. When
  provider A answers two creations with the transaction identifier \<open>T1\<close>, both are
  inserted and the table holds two rows for \<open>T1\<close>; two calls of \<^verbatim>\<open>createOrderVP\<close>
  with one handle, and two calls of \<^verbatim>\<open>createOrderJM\<close> with one pair, leave two rows
  each.
\<close>

theorem create_twice_two_rows:
  "map order_id
     (vp_orders (fst (snd (ServiceVIPayment_create_order w_created ''123'' (PStr ''u2'')
        (PStr ''z2'') (PStr ''f@x.com'') (PInt 1) (PStr ''10.00'') ''Gift Card''
        (fst (snd (ServiceVIPayment_create_order w_created ''123'' (PStr ''u1'') (PStr ''z1'')
           (PStr ''e@x.com'') (PInt 1) (PStr ''10.00'') ''Gift Card'' empty_db)))))))
     = [PStr ''T1'', PStr ''T1''] \<and>
   length (rows_vp (PStr ''T1'') (gift_vp (PStr ''T1'') (gift_vp (PStr ''T1'') empty_db))) = 2 \<and>
   length (rows_jm (PStr ''J1'') (PStr ''M1'')
             (gift_jm (PStr ''J1'') (PStr ''M1'')
               (gift_jm (PStr ''J1'') (PStr ''M1'') empty_db))) = 2 \<and>
   \<not> one_row_per_handle (gift_vp (PStr ''T1'') (gift_vp (PStr ''T1'') empty_db))"
  by (simp add: ServiceVIPayment_create_order_def request_creating_order_vp_def w_created_def
        vp_created_def bind_py_def json_dumps_def insert_error_def
        gift_vp_def gift_jm_def createOrderVP_def createOrderJM_def empty_db_def
        rows_vp_def rows_jm_def one_row_per_handle_def)

text \<open>A store with one row per handle keeps that property under a create whose handle
  is not yet in the provider's table, and under every update and delete.\<close>

lemma one_row_per_handle_preserved:
  assumes "one_row_per_handle db"
  shows "(rows_vp oid db = [] \<longrightarrow>
            one_row_per_handle (createOrderVP uid zid qty prc pname api oid email s0 d0 db)) \<and>
         (rows_mg oid db = [] \<longrightarrow>
            one_row_per_handle (createOrderMG uid zid qty prc pname api oid email s0 d0 db)) \<and>
         (rows_jm oid mid db = [] \<longrightarrow>
            one_row_per_handle (createOrderJM uid zid qty prc pname api oid mid email s0 d0 db)) \<and>
         one_row_per_handle (updateOrderVP oid st d db) \<and>
         one_row_per_handle (updateOrderMG oid st d db) \<and>
         one_row_per_handle (updateOrderJM oid mid st d db) \<and>
         one_row_per_handle (deleteOrderVP oid db) \<and>
         one_row_per_handle (deleteOrderMG oid db) \<and>
         one_row_per_handle (deleteOrderJM oid mid db)"
proof -
  have c1: "rows_vp oid db = [] \<longrightarrow>
            one_row_per_handle (createOrderVP uid zid qty prc pname api oid email s0 d0 db)"
    using assms
    by (simp add: one_row_per_handle_def createOrderVP_def rows_vp_def filter_eq_Nil_map)
  have c2: "rows_mg oid db = [] \<longrightarrow>
            one_row_per_handle (createOrderMG uid zid qty prc pname api oid email s0 d0 db)"
    using assms
    by (simp add: one_row_per_handle_def createOrderMG_def rows_mg_def filter_eq_Nil_map)
  have c3: "rows_jm oid mid db = [] \<longrightarrow>
            one_row_per_handle (createOrderJM uid zid qty prc pname api oid mid email s0 d0 db)"
    using assms
    by (simp add: one_row_per_handle_def createOrderJM_def rows_jm_handle filter_eq_Nil_map)
       (simp add: handle_jm_def)
  have u1: "one_row_per_handle (updateOrderVP oid st d db)"
    using assms by (simp add: one_row_per_handle_def updateOrderVP_def order_id_set_columns)
  have u2: "one_row_per_handle (updateOrderMG oid st d db)"
    using assms by (simp add: one_row_per_handle_def updateOrderMG_def order_id_set_columns)
  have u3: "one_row_per_handle (updateOrderJM oid mid st d db)"
    using assms by (simp add: one_row_per_handle_def updateOrderJM_def handle_jm_set_columns)
  have d1: "one_row_per_handle (deleteOrderVP oid db)"
    using assms by (simp add: one_row_per_handle_def deleteOrderVP_def distinct_map_filter)
  have d2: "one_row_per_handle (deleteOrderMG oid db)"
    using assms by (simp add: one_row_per_handle_def deleteOrderMG_def distinct_map_filter)
  have d3: "one_row_per_handle (deleteOrderJM oid mid db)"
    using assms by (simp add: one_row_per_handle_def deleteOrderJM_def distinct_map_filter)
  show ?thesis using c1 c2 c3 u1 u2 u3 d1 d2 d3 by blast
qed

text \<open>
  C9: for provider C, the rows of the handle \<open>(oid, mid')\<close> and those of \<open>(oid, mid)\<close>
  with another message identifier are different rows, and an update keyed by
  \<open>(oid, mid)\<close> leaves every row of \<open>(oid, mid')\<close> as it was: the rows carrying that
  handle, and what \<^verbatim>\<open>getOrderIdJM\<close> returns for it, are the same before and after.
\<close>

theorem updateOrderJM_other_message:
  assumes "mid' \<noteq> mid"
  shows "set (rows_jm oid mid db) \<inter> set (rows_jm oid mid' db) = {} \<and>
         rows_jm oid mid' (updateOrderJM oid mid st d db) = rows_jm oid mid' db \<and>
         getOrderIdJM oid mid' (updateOrderJM oid mid st d db) = getOrderIdJM oid mid' db \<and>
         length (jm_orders (updateOrderJM oid mid st d db)) = length (jm_orders db)"
proof -
  have a: "set (rows_jm oid mid db) \<inter> set (rows_jm oid mid' db) = {}"
    using assms by (auto simp: rows_jm_def)
  have b: "rows_jm oid mid' (updateOrderJM oid mid st d db) = rows_jm oid mid' db"
    using assms by (simp add: rows_jm_update_other)
  have c: "getOrderIdJM oid mid' (updateOrderJM oid mid st d db) = getOrderIdJM oid mid' db"
    by (simp add: getOrderIdJM_rows b)
  have l: "length (jm_orders (updateOrderJM oid mid st d db)) = length (jm_orders db)"
    by (simp add: updateOrderJM_def)
  show ?thesis using a b c l by simp
qed

theorem updateOrderJM_other_message_witness:
  "PStr ''M2'' \<noteq> PStr ''M1'' \<and>
   getOrderIdJM (PStr ''J1'') (PStr ''M2'')
     (updateOrderJM (PStr ''J1'') (PStr ''M1'') (Some ''success'') (Some (Dumps (PInt 7)))
        (gift_jm (PStr ''J1'') (PStr ''M2'') (gift_jm (PStr ''J1'') (PStr ''M1'') empty_db)))
   = Some \<lparr>row_id = 2, user_id = PStr ''u1'', zone_id = PStr ''z1'', quantity = PInt 1,
           price = PStr ''10.00'', product = ''Gift Card'', api_name = ''JOLLYMAX'',
           order_id = PStr ''J1'', email_user = PStr ''e@x.com'', status = ''waiting'',
           order_details = Dumps PNone, message_id = PStr ''M2''\<rparr> \<and>
   getOrderIdJM (PStr ''J1'') (PStr ''M1'')
     (updateOrderJM (PStr ''J1'') (PStr ''M1'') (Some ''success'') (Some (Dumps (PInt 7)))
        (gift_jm (PStr ''J1'') (PStr ''M2'') (gift_jm (PStr ''J1'') (PStr ''M1'') empty_db)))
   = Some \<lparr>row_id = 1, user_id = PStr ''u1'', zone_id = PStr ''z1'', quantity = PInt 1,
           price = PStr ''10.00'', product = ''Gift Card'', api_name = ''JOLLYMAX'',
           order_id = PStr ''J1'', email_user = PStr ''e@x.com'', status = ''success'',
           order_details = Dumps (PInt 7), message_id = PStr ''M1''\<rparr>"
proof -
  have h: "PStr ''M2'' \<noteq> PStr ''M1''" by simp
  have before: "getOrderIdJM (PStr ''J1'') (PStr ''M2'')
        (gift_jm (PStr ''J1'') (PStr ''M2'') (gift_jm (PStr ''J1'') (PStr ''M1'') empty_db))
      = Some \<lparr>row_id = 2, user_id = PStr ''u1'', zone_id = PStr ''z1'', quantity = PInt 1,
           price = PStr ''10.00'', product = ''Gift Card'', api_name = ''JOLLYMAX'',
           order_id = PStr ''J1'', email_user = PStr ''e@x.com'', status = ''waiting'',
           order_details = Dumps PNone, message_id = PStr ''M2''\<rparr>"
    by (simp add: getOrderIdJM_def gift_jm_def createOrderJM_def empty_db_def)
  have other: "getOrderIdJM (PStr ''J1'') (PStr ''M1'')
     (updateOrderJM (PStr ''J1'') (PStr ''M1'') (Some ''success'') (Some (Dumps (PInt 7)))
        (gift_jm (PStr ''J1'') (PStr ''M2'') (gift_jm (PStr ''J1'') (PStr ''M1'') empty_db)))
      = Some \<lparr>row_id = 1, user_id = PStr ''u1'', zone_id = PStr ''z1'', quantity = PInt 1,
           price = PStr ''10.00'', product = ''Gift Card'', api_name = ''JOLLYMAX'',
           order_id = PStr ''J1'', email_user = PStr ''e@x.com'', status = ''success'',
           order_details = Dumps (PInt 7), message_id = PStr ''M1''\<rparr>"
    by (simp add: getOrderIdJM_def updateOrderJM_def set_columns_def gift_jm_def
          createOrderJM_def empty_db_def)
  show ?thesis
    using h before other
      updateOrderJM_other_message [OF h, of "PStr ''J1''"
        "gift_jm (PStr ''J1'') (PStr ''M2'') (gift_jm (PStr ''J1'') (PStr ''M1'') empty_db)"
        "Some ''success''" "Some (Dumps (PInt 7))"]
    by simp
qed

subsection \<open>The endpoint\<close>

text \<open>The envelope of a response renders as the value it carries does.\<close>

lemma render_error_test:
  "render_error (PDict [(''status'', PStr ''success''),
                        (''message'', PStr ''testing request successfully''),
                        (''data'', PDict [(''test'', t)])]) = render_error t"
  by (simp add: render_error_def split: option.splits)

lemma render_error_missing_parameters:
  "render_error (PDict [(''status'', PStr ''error''), (''message'', PStr ''missing parameters''),
                        (''data'', v)]) = render_error v"
  by (simp add: render_error_def split: option.splits)

text \<open>
  C10 (as stated): every request whose body has the key \<^verbatim>\<open>test\<close> is answered with
  the success result that echoes the value. The body \<^verbatim>\<open>{"test": 1e400}\<close> parses to a
  float that is not finite; building the response raises, and the endpoint answers with
  the 500 response \<^verbatim>\<open>request data\<close>.
\<close>

theorem skyshop_api_test_not_finite:
  "skyshop_api cfg0 w_rejected (Some test_infinity) db0 =
     (JSONResponse 500 (PDict [(''status'', PStr ''error''), (''message'', PStr ''request data''),
                               (''data'', ErrText ValueError)]),
      db0, [])"
  by (simp add: skyshop_api_def bind_py_def json_response_def render_error_def
        request_data_error_def test_infinity_def)

text \<open>
  C10 (amended): a request whose JSON body is an object with the key \<^verbatim>\<open>test\<close> is
  answered at once, whatever else the body holds: the store is the same and nothing is
  validated, sent or called. The answer is the 200 response that echoes the value when
  the value renders as JSON (it holds no float that is not finite and no lone
  surrogate), and the 500 response \<^verbatim>\<open>request data\<close> otherwise.
\<close>

theorem skyshop_api_test:
  assumes "map_of kvs ''test'' = Some t"
  shows "skyshop_api cfg w (Some (PDict kvs)) db =
           ((case render_error t of
               None \<Rightarrow>
                 JSONResponse 200
                   (PDict [(''status'', PStr ''success''),
                           (''message'', PStr ''testing request successfully''),
                           (''data'', PDict [(''test'', t)])])
             | Some e \<Rightarrow>
                 JSONResponse 500
                   (PDict [(''status'', PStr ''error''), (''message'', PStr ''request data''),
                           (''data'', ErrText e)])),
            db, [])"
  using assms
  by (simp add: skyshop_api_def bind_py_def json_response_def render_error_test
        request_data_error_def split: option.splits)

theorem skyshop_api_test_witness:
  "map_of [(''test'', PInt 1), (''Input'', PStr ''u1''), (''Zone_ID'', PStr ''z1'')] ''test''
     = Some (PInt 1) \<and>
   render_error (PInt 1) = None \<and>
   skyshop_api cfg0 w_rejected (Some test_no_email) db0 =
     (JSONResponse 200
        (PDict [(''status'', PStr ''success''),
                (''message'', PStr ''testing request successfully''),
                (''data'', PDict [(''test'', PInt 1)])]),
      db0, [])"
proof -
  have t: "map_of [(''test'', PInt 1), (''Input'', PStr ''u1''), (''Zone_ID'', PStr ''z1'')]
             ''test'' = Some (PInt 1)"
    by simp
  have r: "render_error (PInt 1) = None" by (simp add: render_error_def)
  show ?thesis
    using t r skyshop_api_test [OF t, of cfg0 w_rejected db0]
    by (simp add: test_no_email_def)
qed

text \<open>A request that passes the validation has every required field.\<close>

lemma truthy_get:
  "py_get (PDict kvs) k = Inr v \<Longrightarrow> truthy v \<Longrightarrow> map_of kvs k \<noteq> None"
  by (auto split: option.splits)

lemma skyshop_validate_complete:
  assumes "skyshop_validate (PDict kvs) = Inr (Inr req)"
  shows "\<not> missing_required_field (PDict kvs)"
proof -
  obtain uid where uid: "py_get (PDict kvs) ''Input'' = Inr uid" by simp
  obtain zid where zid: "py_get (PDict kvs) ''Zone_ID'' = Inr zid" by simp
  obtain email where email: "py_get (PDict kvs) ''Email'' = Inr email" by simp
  have t: "truthy uid \<and> truthy zid \<and> truthy email"
    using assms uid zid email
    by (auto simp: skyshop_validate_def bind_py_def split: if_splits sum.splits)
  obtain payment where payment: "py_item (PDict kvs) ''payment'' = Inr payment"
    using assms uid zid email t
    by (cases "py_item (PDict kvs) ''payment''")
       (auto simp: skyshop_validate_def bind_py_def simp del: py_item.simps py_get.simps)
  obtain products where products: "py_get_default payment ''products'' (PList []) = Inr products"
    using assms uid zid email t payment
    by (cases "py_get_default payment ''products'' (PList [])")
       (auto simp: skyshop_validate_def bind_py_def simp del: py_item.simps py_get.simps)
  have tp: "truthy products"
    using assms uid zid email t payment products
    by (auto simp: skyshop_validate_def bind_py_def simp del: py_item.simps py_get.simps
          split: if_splits sum.splits)
  obtain p where p: "py_first products = Inr p"
    using assms uid zid email t payment products tp
    by (cases "py_first products")
       (auto simp: skyshop_validate_def bind_py_def simp del: py_item.simps py_get.simps)
  obtain n where n: "py_get p ''name'' = Inr n"
    using assms uid zid email t payment products tp p
    by (cases "py_get p ''name''")
       (auto simp: skyshop_validate_def bind_py_def simp del: py_item.simps py_get.simps)
  obtain q where q: "py_get p ''quantity'' = Inr q"
    using assms uid zid email t payment products tp p n
    by (cases "py_get p ''quantity''")
       (auto simp: skyshop_validate_def bind_py_def simp del: py_item.simps py_get.simps)
  obtain c where c: "py_get p ''price'' = Inr c"
    using assms uid zid email t payment products tp p n q
    by (cases "py_get p ''price''")
       (auto simp: skyshop_validate_def bind_py_def simp del: py_item.simps py_get.simps)
  have tq: "truthy n \<and> truthy q \<and> truthy c"
    using assms uid zid email t payment products tp p n q c
    by (auto simp: skyshop_validate_def bind_py_def simp del: py_item.simps py_get.simps
          split: if_splits sum.splits)
  have top: "map_of kvs ''Input'' \<noteq> None \<and> map_of kvs ''Zone_ID'' \<noteq> None \<and>
             map_of kvs ''Email'' \<noteq> None"
    using uid zid email t by (auto split: option.splits)
  have pay: "map_of kvs ''payment'' = Some payment"
    using payment by (auto split: option.splits)
  obtain pkvs where pk: "payment = PDict pkvs" using products by (cases payment) auto
  have prods: "map_of pkvs ''products'' = Some products"
    using products tp pk by (auto split: option.splits)
  obtain fkvs where fk: "p = PDict fkvs" using n by (cases p) auto
  have fields: "map_of fkvs ''name'' \<noteq> None \<and> map_of fkvs ''quantity'' \<noteq> None \<and>
                map_of fkvs ''price'' \<noteq> None"
    using n q c tq fk by (auto split: option.splits)
  have "\<not> product_lacks products"
  proof (cases products)
    case (PList xs)
    then show ?thesis using p fk fields by (cases xs) auto
  qed auto
  then show ?thesis
    using top pay pk prods by (simp add: missing_required_field_def)
qed

lemma skyshop_api_rejected:
  assumes "map_of kvs ''test'' = None" and "\<And>req. skyshop_validate (PDict kvs) \<noteq> Inr (Inr req)"
  shows "snd (skyshop_api cfg w (Some (PDict kvs)) db) = (db, [])"
proof (cases "skyshop_validate (PDict kvs)")
  case (Inl e)
  then show ?thesis using assms(1) by (simp add: skyshop_api_def)
next
  case (Inr r)
  then show ?thesis using assms by (cases r) (auto simp: skyshop_api_def)
qed

lemma skyshop_validate_missing_parameters:
  assumes "map_of kvs ''Input'' = None \<or> map_of kvs ''Zone_ID'' = None \<or>
           map_of kvs ''Email'' = None"
  shows "skyshop_validate (PDict kvs) =
           (case render_error (PDict kvs) of
              None \<Rightarrow>
                Inr (Inl (JSONResponse 400
                  (PDict [(''status'', PStr ''error''), (''message'', PStr ''missing parameters''),
                          (''data'', PDict kvs)])))
            | Some e \<Rightarrow> Inl e)"
  using assms
  by (auto simp: skyshop_validate_def bind_py_def bad_request_def json_response_def
        render_error_missing_parameters split: option.splits)

text \<open>
  C5 (as stated): every request that lacks a required field is answered with the
  message \<^verbatim>\<open>missing parameters\<close>. A request that lacks the quantity of its product
  is answered with \<^verbatim>\<open>missing product parameters\<close>, and a request that lacks the
  email but has the key \<^verbatim>\<open>test\<close> is answered with the 200 test response.
\<close>

theorem missing_field_other_answers:
  "skyshop_api cfg0 w_rejected (Some no_quantity) db0 =
     (JSONResponse 400
        (PDict [(''status'', PStr ''error''), (''message'', PStr ''missing product parameters''),
                (''data'', no_quantity)]),
      db0, []) \<and>
   skyshop_api cfg0 w_rejected (Some test_no_email) db0 =
     (JSONResponse 200
        (PDict [(''status'', PStr ''success''),
                (''message'', PStr ''testing request successfully''),
                (''data'', PDict [(''test'', PInt 1)])]),
      db0, [])"
  by (simp add: skyshop_api_def skyshop_validate_def bind_py_def bad_request_def
        json_response_def render_error_def no_quantity_def test_no_email_def)

text \<open>
  C5 (amended): a request whose JSON body is an object without the key \<^verbatim>\<open>test\<close> and
  without a required field (the user, the zone, the email, the payment, a product in its
  product list, or the name, the quantity or the price of the first product) leaves the
  store as it was, and nothing is sent or called. When the field that is not there is
  \<^verbatim>\<open>Input\<close>, \<^verbatim>\<open>Zone_ID\<close> or \<^verbatim>\<open>Email\<close>, the answer is the 400 response
  \<^verbatim>\<open>missing parameters\<close> that echoes the body if the body renders as JSON, and the 500
  response \<^verbatim>\<open>request data\<close> if it does not.
\<close>

theorem skyshop_api_missing_field:
  assumes "map_of kvs ''test'' = None" and "missing_required_field (PDict kvs)"
  shows "snd (skyshop_api cfg w (Some (PDict kvs)) db) = (db, []) \<and>
         (map_of kvs ''Input'' = None \<or> map_of kvs ''Zone_ID'' = None \<or>
          map_of kvs ''Email'' = None \<longrightarrow>
            fst (skyshop_api cfg w (Some (PDict kvs)) db) =
              (case render_error (PDict kvs) of
                 None \<Rightarrow>
                   JSONResponse 400
                     (PDict [(''status'', PStr ''error''),
                             (''message'', PStr ''missing parameters''),
                             (''data'', PDict kvs)])
               | Some e \<Rightarrow>
                   JSONResponse 500
                     (PDict [(''status'', PStr ''error''), (''message'', PStr ''request data''),
                             (''data'', ErrText e)])))"
proof -
  have a: "snd (skyshop_api cfg w (Some (PDict kvs)) db) = (db, [])"
    using assms skyshop_validate_complete [of kvs] by (intro skyshop_api_rejected) auto
  have b: "fst (skyshop_api cfg w (Some (PDict kvs)) db) =
              (case render_error (PDict kvs) of
                 None \<Rightarrow>
                   JSONResponse 400
                     (PDict [(''status'', PStr ''error''),
                             (''message'', PStr ''missing parameters''),
                             (''data'', PDict kvs)])
               | Some e \<Rightarrow>
                   JSONResponse 500
                     (PDict [(''status'', PStr ''error''), (''message'', PStr ''request data''),
                             (''data'', ErrText e)]))"
    if "map_of kvs ''Input'' = None \<or> map_of kvs ''Zone_ID'' = None \<or>
        map_of kvs ''Email'' = None"
    using assms(1) skyshop_validate_missing_parameters [OF that]
    by (simp add: skyshop_api_def request_data_error_def split: option.splits)
  show ?thesis using a b by blast
qed

theorem skyshop_api_missing_field_witness:
  "missing_required_field no_email \<and>
   skyshop_api cfg0 w_rejected (Some no_email) db0 =
     (JSONResponse 400
        (PDict [(''status'', PStr ''error''), (''message'', PStr ''missing parameters''),
                (''data'', no_email)]),
      db0, []) \<and>
   missing_required_field no_email_infinity \<and>
   skyshop_api cfg0 w_rejected (Some no_email_infinity) db0 =
     (JSONResponse 500
        (PDict [(''status'', PStr ''error''), (''message'', PStr ''request data''),
                (''data'', ErrText ValueError)]),
      db0, []) \<and>
   missing_required_field no_quantity \<and>
   snd (skyshop_api cfg0 w_rejected (Some no_quantity) db0) = (db0, [])"
proof -
  let ?a = "[(''Input'', PStr ''u1''), (''Zone_ID'', PStr ''z1''),
            (''payment'', PDict [(''products'',
               PList [PDict [(''name'', PStr ''MG+123+Gift Card''), (''quantity'', PInt 1),
                             (''price'', PStr ''10.00'')]])])]"
  let ?b = "[(''Input'', PStr ''u1''), (''Zone_ID'', PStr ''z1''), (''note'', PNonFinite PosInf)]"
  let ?c = "[(''Input'', PStr ''u1''), (''Zone_ID'', PStr ''z1''), (''Email'', PStr ''e@x.com''),
            (''payment'', PDict [(''products'',
               PList [PDict [(''name'', PStr ''MG+123+Gift Card''),
                             (''price'', PStr ''10.00'')]])])]"
  have ta: "map_of ?a ''test'' = None" and tb: "map_of ?b ''test'' = None"
    and tc: "map_of ?c ''test'' = None"
    by simp_all
  have ma: "missing_required_field (PDict ?a)" and mb: "missing_required_field (PDict ?b)"
    and mc: "missing_required_field (PDict ?c)"
    by (simp_all add: missing_required_field_def)
  have ra: "render_error (PDict ?a) = None" and rb: "render_error (PDict ?b) = Some ValueError"
    by (simp_all add: render_error_def)
  have ea: "map_of ?a ''Email'' = None" and eb: "map_of ?b ''Email'' = None" by simp_all
  show ?thesis
    using ma mb mc ra rb ea eb
      skyshop_api_missing_field [OF ta ma, of cfg0 w_rejected db0]
      skyshop_api_missing_field [OF tb mb, of cfg0 w_rejected db0]
      skyshop_api_missing_field [OF tc mc, of cfg0 w_rejected db0]
    by (simp add: no_email_def no_email_infinity_def no_quantity_def prod_eq_iff)
qed


subsection \<open>The orchestrator\<close>

text \<open>
  C4: a request whose service code is none of the three is to get a routing error that
  names the invalid service code. \<^verbatim>\<open>service_create_order\<close> builds that answer, the
  400 response \<^verbatim>\<open>Invalid service code\<close>, and returns it as its value; the endpoint
  then wraps the response object into the content of its 200 response, which does not
  serialize, and the handler of its inner \<^verbatim>\<open>try\<close> answers with the 500 response
  \<^verbatim>\<open>create order\<close> instead. The store is the same and nothing is sent or called.
\<close>

theorem skyshop_api_unknown_code:
  "service_create_order cfg0 w_rejected ''XX'' ''123'' (PStr ''u1'') (PStr ''z1'')
       (PStr ''e@x.com'') (PInt 1) (PStr ''10.00'') ''Gift Card'' db0 =
     (JSONResponse 400 (PDict [(''status'', PStr ''error''),
                               (''message'', PStr ''Invalid service code'')]), db0, []) \<and>
   skyshop_api cfg0 w_rejected (Some unknown_code) db0 =
     (JSONResponse 500 (PDict [(''status'', PStr ''error''), (''message'', PStr ''create order''),
                               (''data'', ErrText TypeError)]), db0, [])"
  by (simp add: skyshop_api_def skyshop_validate_def bind_py_def bad_request_def
        json_response_def render_error_def unknown_code_def service_create_order_def
        invalid_service_code_def create_order_error_def)

text \<open>The same for every request: with a service code other than \<^verbatim>\<open>VP\<close>, \<^verbatim>\<open>MG\<close>
  and \<^verbatim>\<open>JM\<close> the value of \<^verbatim>\<open>service_create_order\<close> is the 400 response, and the
  answer of the endpoint to a request that passes the validation is the 500 response.\<close>

lemma service_create_order_unknown:
  assumes "sc \<noteq> ''VP''" and "sc \<noteq> ''MG''" and "sc \<noteq> ''JM''"
  shows "service_create_order cfg w sc pc uid zid email qty prc pn db =
           (JSONResponse 400 (PDict [(''status'', PStr ''error''),
                                     (''message'', PStr ''Invalid service code'')]), db, [])"
  using assms by (simp add: service_create_order_def invalid_service_code_def)

lemma skyshop_api_unknown:
  assumes "py_in ''test'' data = Inr False"
    and "skyshop_validate data = Inr (Inr (sc, pc, pn, uid, zid, email, qty, prc))"
    and "sc \<noteq> ''VP''" and "sc \<noteq> ''MG''" and "sc \<noteq> ''JM''"
  shows "skyshop_api cfg w (Some data) db =
           (JSONResponse 500 (PDict [(''status'', PStr ''error''),
                                     (''message'', PStr ''create order''),
                                     (''data'', ErrText TypeError)]), db, [])"
  using assms
  by (simp add: skyshop_api_def service_create_order_def invalid_service_code_def
        json_response_def render_error_def create_order_error_def)

lemma no_notification_vp:
  "filter is_notification
     (snd (snd (request_creating_order_vp w url payload uid zid email qty prc pn db))) = []"
  by (simp add: request_creating_order_vp_def Let_def
        split: http_reply.splits option.splits sum.splits)

lemma no_notification_mg:
  "filter is_notification
     (snd (snd (request_creating_order_mg w url payload uid zid email qty prc pn db))) = []"
  by (simp add: request_creating_order_mg_def Let_def
        split: http_reply.splits option.splits sum.splits)

lemma no_notification_jm:
  "filter is_notification
     (snd (snd (request_creating_order_jm w url payload oid mid uid zid email qty prc pn db)))
     = []"
  by (simp add: request_creating_order_jm_def Let_def
        split: http_reply.splits option.splits sum.splits)

lemma events_of_sum_case:
  "snd (snd (case x of (Inl e, d, evs) \<Rightarrow> (f e, d, evs) | (Inr v, d, evs) \<Rightarrow> (g v, d, evs)))
     = snd (snd x)"
  by (auto split: prod.splits sum.splits)

lemma no_notification_ServiceVIPayment:
  "filter is_notification
     (snd (snd (ServiceVIPayment_create_order w pc uid zid email qty prc pn db))) = []"
  by (simp add: ServiceVIPayment_create_order_def no_notification_vp)

lemma no_notification_ServiceMoogold:
  "filter is_notification
     (snd (snd (ServiceMoogold_create_order w pc uid zid email qty prc pn db))) = []"
  by (simp add: ServiceMoogold_create_order_def Let_def events_of_sum_case no_notification_mg
        split: sum.splits)

lemma no_notification_ServiceJollymax:
  "filter is_notification
     (snd (snd (ServiceJollymax_create_order w pc uid zid email qty prc pn db))) = []"
  by (simp add: ServiceJollymax_create_order_def Let_def split_beta no_notification_jm
        split: sum.splits option.splits)

lemma no_notification_create:
  "filter is_notification (create_order_events w sc pc uid zid email qty prc pn db) = []"
  by (simp add: create_order_events_def no_notification_ServiceVIPayment
        no_notification_ServiceMoogold no_notification_ServiceJollymax)

text \<open>
  C6: with a recognized service code, whatever the provider answers, the effects of
  \<^verbatim>\<open>service_create_order\<close> are the "new order" message to every operator, in the
  order of the operator list, followed by the effects of the service's
  \<^verbatim>\<open>create_order\<close>, among which there is no further message.
\<close>

theorem notification_before_create_order:
  assumes "sc = ''VP'' \<or> sc = ''MG'' \<or> sc = ''JM''"
  shows "snd (snd (service_create_order cfg w sc pc uid zid email qty prc pn db)) =
           map (\<lambda>u. SendMessage u (NewOrder (service_label sc) pn uid qty prc)) (TG_ADMINS cfg) @
           create_order_events w sc pc uid zid email qty prc pn db \<and>
         filter is_notification (create_order_events w sc pc uid zid email qty prc pn db) = []"
  using assms no_notification_create [of w sc pc uid zid email qty prc pn db]
  by (auto simp: service_create_order_def create_order_events_def service_label_def
        send_message_order_def split: prod.splits)

theorem notification_before_create_order_witness:
  "(''MG'' = ''VP'' \<or> ''MG'' = ''MG'' \<or> ''MG'' = ''JM'') \<and>
   service_create_order cfg0 w_rejected ''MG'' ''123'' (PStr ''u1'') (PStr ''z1'')
       (PStr ''e@x.com'') (PInt 1) (PStr ''10.00'') ''Gift Card'' db0 =
     (PDict [(''status'', PStr ''warning''), (''message'', PStr ''order creation failed''),
             (''data'', PDict [(''result'', PBool False), (''status'', PBool False),
                               (''code'', PStr ''BALANCE_NOT_ENOUGH''),
                               (''message'', PStr ''no funds'')])],
      db0,
      [SendMessage (PInt 11) (NewOrder ''Moogold'' ''Gift Card'' (PStr ''u1'') (PInt 1)
                                (PStr ''10.00'')),
       SendMessage (PInt 12) (NewOrder ''Moogold'' ''Gift Card'' (PStr ''u1'') (PInt 1)
                                (PStr ''10.00'')),
       HttpPost MOOGOLD ''order/create_order''
         (PDict [(''path'', PStr ''order/create_order''),
                 (''data'', PDict [(''category'', PStr ''1''), (''product-id'', PStr ''123''),
                                   (''quantity'', PStr ''1''), (''User ID'', PStr ''u1''),
                                   (''Server'', PStr ''z1'')])])])"
proof -
  have h: "''MG'' = ''VP'' \<or> ''MG'' = ''MG'' \<or> ''MG'' = ''JM''" by simp
  have r: "ServiceMoogold_create_order w_rejected ''123'' (PStr ''u1'') (PStr ''z1'')
             (PStr ''e@x.com'') (PInt 1) (PStr ''10.00'') ''Gift Card'' db0 =
           (Inr (PDict [(''status'', PStr ''warning''),
                        (''message'', PStr ''order creation failed''),
                        (''data'', PDict [(''result'', PBool False), (''status'', PBool False),
                                          (''code'', PStr ''BALANCE_NOT_ENOUGH''),
                                          (''message'', PStr ''no funds'')])]),
            db0,
            [HttpPost MOOGOLD ''order/create_order''
              (PDict [(''path'', PStr ''order/create_order''),
                 (''data'', PDict [(''category'', PStr ''1''), (''product-id'', PStr ''123''),
                                   (''quantity'', PStr ''1''), (''User ID'', PStr ''u1''),
                                   (''Server'', PStr ''z1'')])])])"
    by (simp add: ServiceMoogold_create_order_def request_creating_order_mg_def json_dumps_def
          warning_result_def w_rejected_def rejected_def)
  have e: "snd (snd (service_create_order cfg0 w_rejected ''MG'' ''123'' (PStr ''u1'')
             (PStr ''z1'') (PStr ''e@x.com'') (PInt 1) (PStr ''10.00'') ''Gift Card'' db0)) =
           [SendMessage (PInt 11) (NewOrder ''Moogold'' ''Gift Card'' (PStr ''u1'') (PInt 1)
                                (PStr ''10.00'')),
            SendMessage (PInt 12) (NewOrder ''Moogold'' ''Gift Card'' (PStr ''u1'') (PInt 1)
                                (PStr ''10.00'')),
            HttpPost MOOGOLD ''order/create_order''
              (PDict [(''path'', PStr ''order/create_order''),
                 (''data'', PDict [(''category'', PStr ''1''), (''product-id'', PStr ''123''),
                                   (''quantity'', PStr ''1''), (''User ID'', PStr ''u1''),
                                   (''Server'', PStr ''z1'')])])]"
    using notification_before_create_order [OF h, of cfg0 w_rejected "''123''" "PStr ''u1''"
        "PStr ''z1''" "PStr ''e@x.com''" "PInt 1" "PStr ''10.00''" "''Gift Card''" db0]
    by (simp add: create_order_events_def service_label_def cfg0_def r)
  have v: "fst (service_create_order cfg0 w_rejected ''MG'' ''123'' (PStr ''u1'')
             (PStr ''z1'') (PStr ''e@x.com'') (PInt 1) (PStr ''10.00'') ''Gift Card'' db0) =
           PDict [(''status'', PStr ''warning''), (''message'', PStr ''order creation failed''),
                  (''data'', PDict [(''result'', PBool False), (''status'', PBool False),
                                    (''code'', PStr ''BALANCE_NOT_ENOUGH''),
                                    (''message'', PStr ''no funds'')])] \<and>
           fst (snd (service_create_order cfg0 w_rejected ''MG'' ''123'' (PStr ''u1'')
             (PStr ''z1'') (PStr ''e@x.com'') (PInt 1) (PStr ''10.00'') ''Gift Card'' db0)) = db0"
    by (simp add: service_create_order_def r)
  show ?thesis using h e v by (simp add: prod_eq_iff)
qed

subsection \<open>Creating an order\<close>

text \<open>
  C8: when the provider answers the creation request with a 200 whose discriminator is
  there and is not the success value (A: \<^verbatim>\<open>result\<close>, B: \<^verbatim>\<open>status\<close>, compared with
  \<^verbatim>\<open>== True\<close>; C: \<^verbatim>\<open>code\<close>, compared with \<^verbatim>\<open>APPLY_SUCCESS\<close>), the service's
  \<^verbatim>\<open>create_order\<close> returns the dictionary with the status \<^verbatim>\<open>warning\<close>, the message
  \<^verbatim>\<open>order creation failed\<close> and the provider's document as its \<^verbatim>\<open>data\<close>; the store
  is the same, and the only effect is the request to the provider: no row is inserted.
  For B and C the request is sent only if its payload serializes and, for C, the signing
  does not raise.
\<close>

theorem rejected_order_not_persisted:
  "(reply w = Reply 200 (Some data) \<and> py_item data ''result'' = Inr res \<and> \<not> eq_True res \<longrightarrow>
      (let r = ServiceVIPayment_create_order w service uid zid email qty prc pn db
       in fst r = PDict [(''status'', PStr ''warning''),
                         (''message'', PStr ''order creation failed''), (''data'', data)] \<and>
          fst (snd r) = db \<and>
          snd (snd r) =
            [HttpPost VIPAYMENT ''/game-feature''
               (PDict [(''type'', PStr ''order''), (''service'', PStr service),
                       (''data_no'', uid), (''data_zone'', zid)])])) \<and>
   (reply w = Reply 200 (Some data) \<and> py_item data ''status'' = Inr res \<and> \<not> eq_True res \<and>
    serializable uid \<and> serializable zid \<longrightarrow>
      (let r = ServiceMoogold_create_order w service uid zid email qty prc pn db
       in fst r = Inr (PDict [(''status'', PStr ''warning''),
                              (''message'', PStr ''order creation failed''), (''data'', data)]) \<and>
          fst (snd r) = db \<and>
          snd (snd r) =
            [HttpPost MOOGOLD ''order/create_order''
               (PDict [(''path'', PStr ''order/create_order''),
                       (''data'', PDict [(''category'', PStr ''1''),
                                         (''product-id'', PStr service),
                                         (''quantity'', PStr ''1''), (''User ID'', uid),
                                         (''Server'', zid)])])])) \<and>
   (reply w = Reply 200 (Some data) \<and> signing w = None \<and> py_item data ''code'' = Inr res \<and>
    \<not> eq_str res ''APPLY_SUCCESS'' \<and> serializable uid \<and> serializable zid \<longrightarrow>
      (let r = ServiceJollymax_create_order w service uid zid email qty prc pn db
       in fst r = Inr (PDict [(''status'', PStr ''warning''),
                              (''message'', PStr ''order creation failed''), (''data'', data)]) \<and>
          fst (snd r) = db \<and>
          snd (snd r) =
            [HttpPost JOLLYMAX ''/distribute-order-create''
               (PDict [(''version'', PStr ''1.0''), (''keyVersion'', PStr ''1''),
                       (''data'', PDict [(''outOrderId'', PStr (fst (unique_ids w))),
                                         (''code'', PStr service), (''quantity'', PInt 1),
                                         (''tradeInfo'',
                                            PDict [(''userId'', uid), (''serverId'', zid),
                                                   (''role_id'', PStr [])]),
                                         (''messageId'', PStr (snd (unique_ids w)))])])]))"
  by (auto simp: ServiceVIPayment_create_order_def request_creating_order_vp_def
        ServiceMoogold_create_order_def request_creating_order_mg_def
        ServiceJollymax_create_order_def request_creating_order_jm_def
        warning_result_def json_dumps_def Let_def)

theorem rejected_order_not_persisted_witness:
  "reply w_rejected =
     Reply 200 (Some (PDict [(''result'', PBool False), (''status'', PBool False),
                             (''code'', PStr ''BALANCE_NOT_ENOUGH''),
                             (''message'', PStr ''no funds'')])) \<and>
   signing w_rejected = None \<and>
   fst (ServiceVIPayment_create_order w_rejected ''123'' (PStr ''u1'')
          (PStr ''z1'') (PStr ''e@x.com'') (PInt 1) (PStr ''10.00'') ''Gift Card'' db0) =
     PDict [(''status'', PStr ''warning''), (''message'', PStr ''order creation failed''),
            (''data'', PDict [(''result'', PBool False), (''status'', PBool False),
                              (''code'', PStr ''BALANCE_NOT_ENOUGH''),
                              (''message'', PStr ''no funds'')])] \<and>
   fst (snd (ServiceVIPayment_create_order w_rejected ''123'' (PStr ''u1'')
          (PStr ''z1'') (PStr ''e@x.com'') (PInt 1) (PStr ''10.00'') ''Gift Card'' db0)) = db0 \<and>
   fst (ServiceMoogold_create_order w_rejected ''123'' (PStr ''u1'')
          (PStr ''z1'') (PStr ''e@x.com'') (PInt 1) (PStr ''10.00'') ''Gift Card'' db0) =
     Inr (PDict [(''status'', PStr ''warning''), (''message'', PStr ''order creation failed''),
                 (''data'', PDict [(''result'', PBool False), (''status'', PBool False),
                                   (''code'', PStr ''BALANCE_NOT_ENOUGH''),
                                   (''message'', PStr ''no funds'')])]) \<and>
   fst (snd (ServiceMoogold_create_order w_rejected ''123'' (PStr ''u1'')
          (PStr ''z1'') (PStr ''e@x.com'') (PInt 1) (PStr ''10.00'') ''Gift Card'' db0)) = db0 \<and>
   fst (ServiceJollymax_create_order w_rejected ''123'' (PStr ''u1'')
          (PStr ''z1'') (PStr ''e@x.com'') (PInt 1) (PStr ''10.00'') ''Gift Card'' db0) =
     Inr (PDict [(''status'', PStr ''warning''), (''message'', PStr ''order creation failed''),
                 (''data'', PDict [(''result'', PBool False), (''status'', PBool False),
                                   (''code'', PStr ''BALANCE_NOT_ENOUGH''),
                                   (''message'', PStr ''no funds'')])]) \<and>
   fst (snd (ServiceJollymax_create_order w_rejected ''123'' (PStr ''u1'')
          (PStr ''z1'') (PStr ''e@x.com'') (PInt 1) (PStr ''10.00'') ''Gift Card'' db0)) = db0 \<and>
   vp_orders db0 \<noteq> [] \<and> mg_orders db0 \<noteq> [] \<and> jm_orders db0 \<noteq> []"
proof -
  let ?data = "PDict [(''result'', PBool False), (''status'', PBool False),
                      (''code'', PStr ''BALANCE_NOT_ENOUGH''), (''message'', PStr ''no funds'')]"
  have a: "py_item ?data ''result'' = Inr (PBool False)"
    and b: "py_item ?data ''status'' = Inr (PBool False)"
    and c: "py_item ?data ''code'' = Inr (PStr ''BALANCE_NOT_ENOUGH'')"
    by simp_all
  have w: "reply w_rejected = Reply 200 (Some ?data)" "signing w_rejected = None"
    by (simp_all add: w_rejected_def rejected_def)
  have n: "\<not> eq_True (PBool False)" "\<not> eq_str (PStr ''BALANCE_NOT_ENOUGH'') ''APPLY_SUCCESS''"
    by simp_all
  have s: "serializable (PStr ''u1'')" "serializable (PStr ''z1'')" by simp_all
  have d: "vp_orders db0 \<noteq> [] \<and> mg_orders db0 \<noteq> [] \<and> jm_orders db0 \<noteq> []"
    by (simp add: db0_def gift_vp_def gift_mg_def gift_jm_def createOrderVP_def
          createOrderMG_def createOrderJM_def empty_db_def)
  note vp = rejected_order_not_persisted [of w_rejected ?data "PBool False"
      "''123''" "PStr ''u1''" "PStr ''z1''" "PStr ''e@x.com''" "PInt 1" "PStr ''10.00''"
      "''Gift Card''" db0]
  note jm = rejected_order_not_persisted [of w_rejected ?data "PStr ''BALANCE_NOT_ENOUGH''"
      "''123''" "PStr ''u1''" "PStr ''z1''" "PStr ''e@x.com''" "PInt 1" "PStr ''10.00''"
      "''Gift Card''" db0]
  show ?thesis
    using a b c w n s d vp jm by (simp add: Let_def)
qed


subsection \<open>The scheduler\<close>


lemma for_orders_invariant:
  assumes "P db" and "\<And>x d. x \<in> set xs \<Longrightarrow> P d \<Longrightarrow> P (fst (body x d))"
  shows "P (fst (for_orders body xs db))"
  using assms
proof (induction xs arbitrary: db)
  case Nil
  then show ?case by simp
next
  case (Cons x xs)
  have "P (fst (body x db))" using Cons.prems by simp
  then have "P (fst (for_orders body xs (fst (body x db))))"
    using Cons.prems(2) by (intro Cons.IH) auto
  then show ?case by (simp add: split_beta)
qed

lemma for_orders_events:
  assumes "e \<in> set (snd (for_orders body xs db))"
  shows "\<exists>x \<in> set xs. \<exists>d. e \<in> set (snd (body x d))"
  using assms
proof (induction xs arbitrary: db)
  case Nil
  then show ?case by simp
next
  case (Cons x xs)
  then have "e \<in> set (snd (body x db)) \<or>
             e \<in> set (snd (for_orders body xs (fst (body x db))))"
    by (simp add: split_beta)
  then show ?case using Cons.IH by auto
qed

lemma for_orders_skip:
  assumes "\<And>x d. x \<in> set xs \<Longrightarrow> body x d = (d, ev x)"
  shows "for_orders body xs db = (db, concat (map ev xs))"
  using assms by (induction xs arbitrary: db) auto


lemma in_enumerate: "(k, r) \<in> set (enumerate 0 xs) \<longleftrightarrow> k < length xs \<and> xs ! k = r"
  by (auto simp: in_set_enumerate_eq)


text \<open>The columns that an update writes, in the rows of its handle.\<close>

lemma rows_vp_update:
  "rows_vp h (updateOrderVP h st d db) = map (set_columns st d) (rows_vp h db)"
  by (simp add: rows_vp_def updateOrderVP_def filter_map comp_def set_columns_def
        cong: map_cong)


lemma rows_jm_update:
  "rows_jm h i (updateOrderJM h i st d db) = map (set_columns st d) (rows_jm h i db)"
proof -
  have "filter (\<lambda>r. order_id r = h \<and> message_id r = i)
          (map (\<lambda>r. if order_id r = h \<and> message_id r = i then set_columns st d r else r) xs) =
        map (set_columns st d) (filter (\<lambda>r. order_id r = h \<and> message_id r = i) xs)"
    for xs :: "BaseOrderJM list"
    by (induction xs) (auto simp: set_columns_def)
  then show ?thesis by (simp add: rows_jm_def updateOrderJM_def)
qed

lemma rows_vp_update_other:
  "oid \<noteq> h \<Longrightarrow> rows_vp h (updateOrderVP oid st d db) = rows_vp h db"
  unfolding rows_vp_def updateOrderVP_def
  by (auto intro!: filter_map_other simp: set_columns_def)

lemma rows_mg_update_other:
  "oid \<noteq> h \<Longrightarrow> rows_mg h (updateOrderMG oid st d db) = rows_mg h db"
  unfolding rows_mg_def updateOrderMG_def
  by (auto intro!: filter_map_other simp: set_columns_def)

text \<open>An update changes nothing but the two columns, whatever its handle.\<close>

lemma set_columns_twice:
  "set_columns (Some s) (Some d) (set_columns st' d' r) = set_columns (Some s) (Some d) r"
  by (simp add: set_columns_def)


text \<open>What a loop body is, by the outcome of its check.\<close>

lemma check_vp_order_skip:
  assumes "outcome (fst (vp_check cfg rp (order_id r))) = None"
  shows "check_vp_order cfg rp r db = (db, snd (vp_check cfg rp (order_id r)))"
proof -
  obtain res evs where c: "vp_check cfg rp (order_id r) = (res, evs)"
    by (cases "vp_check cfg rp (order_id r)")
  show ?thesis using assms
    by (cases res) (auto simp: c check_vp_order_def outcome_def Let_def split: option.splits)
qed

lemma check_mg_order_skip:
  assumes "outcome (fst (mg_check cfg rp (order_id r))) = None"
  shows "check_mg_order cfg rp r db = (db, snd (mg_check cfg rp (order_id r)))"
proof -
  obtain res evs where c: "mg_check cfg rp (order_id r) = (res, evs)"
    by (cases "mg_check cfg rp (order_id r)")
  show ?thesis using assms
    by (cases res) (auto simp: c check_mg_order_def outcome_def Let_def split: option.splits)
qed

lemma check_jm_order_skip:
  assumes "outcome (fst (jm_check cfg sg rp (order_id r) (message_id r))) = None"
  shows "check_jm_order cfg sg rp r db = (db, snd (jm_check cfg sg rp (order_id r) (message_id r)))"
proof -
  obtain res evs where c: "jm_check cfg sg rp (order_id r) (message_id r) = (res, evs)"
    by (cases "jm_check cfg sg rp (order_id r) (message_id r)")
  show ?thesis using assms
    by (cases res) (auto simp: c check_jm_order_def outcome_def Let_def split: option.splits)
qed

lemma check_vp_order_cases:
  "check_vp_order cfg rp r db = (db, snd (vp_check cfg rp (order_id r))) \<or>
   (\<exists>s d. outcome (fst (vp_check cfg rp (order_id r))) = Some (s, d) \<and>
      check_vp_order cfg rp r db =
        (updateOrderVP (order_id r) (Some s) (Some d) db,
         snd (vp_check cfg rp (order_id r)) @ [UpdateOrder VIPAYMENT (order_id r) None]))"
proof -
  obtain res evs where c: "vp_check cfg rp (order_id r) = (res, evs)"
    by (cases "vp_check cfg rp (order_id r)")
  show ?thesis
    by (cases res) (auto simp: c check_vp_order_def outcome_def Let_def split: option.splits)
qed

lemma check_mg_order_cases:
  "check_mg_order cfg rp r db = (db, snd (mg_check cfg rp (order_id r))) \<or>
   (\<exists>s d. outcome (fst (mg_check cfg rp (order_id r))) = Some (s, d) \<and>
      check_mg_order cfg rp r db =
        (updateOrderMG (order_id r) (Some s) (Some d) db,
         snd (mg_check cfg rp (order_id r)) @ [UpdateOrder MOOGOLD (order_id r) None]))"
proof -
  obtain res evs where c: "mg_check cfg rp (order_id r) = (res, evs)"
    by (cases "mg_check cfg rp (order_id r)")
  show ?thesis
    by (cases res) (auto simp: c check_mg_order_def outcome_def Let_def split: option.splits)
qed

lemma check_jm_order_cases:
  "check_jm_order cfg sg rp r db = (db, snd (jm_check cfg sg rp (order_id r) (message_id r))) \<or>
   (\<exists>s d. outcome (fst (jm_check cfg sg rp (order_id r) (message_id r))) = Some (s, d) \<and>
      check_jm_order cfg sg rp r db =
        (updateOrderJM (order_id r) (message_id r) (Some s) (Some d) db,
         snd (jm_check cfg sg rp (order_id r) (message_id r)) @
         [UpdateOrder JOLLYMAX (order_id r) (Some (message_id r))]))"
proof -
  obtain res evs where c: "jm_check cfg sg rp (order_id r) (message_id r) = (res, evs)"
    by (cases "jm_check cfg sg rp (order_id r) (message_id r)")
  show ?thesis
    by (cases res) (auto simp: c check_jm_order_def outcome_def Let_def split: option.splits)
qed

text \<open>The requests of a check; no update is among them.\<close>

lemma snd_request_checking_order_vp:
  "snd (request_checking_order_vp rp url payload) = [HttpPost VIPAYMENT url payload]"
  by (simp add: request_checking_order_vp_def Let_def
        split: http_reply.splits option.splits sum.splits)

lemma snd_request_checking_order_mg:
  "snd (request_checking_order_mg rp url payload) = [HttpPost MOOGOLD url payload]"
  by (simp add: request_checking_order_mg_def Let_def
        split: http_reply.splits option.splits sum.splits bool.splits)

lemma snd_request_checking_order_jm:
  "snd (request_checking_order_jm rp url payload) = [HttpPost JOLLYMAX url payload]"
  by (simp add: request_checking_order_jm_def Let_def
        split: http_reply.splits option.splits sum.splits)

lemma snd_vp_check:
  "snd (vp_check cfg rp oid) =
     [HttpPost VIPAYMENT ''/game-feature'' (PDict [(''type'', PStr ''status''), (''trxid'', oid)])]"
  using snd_request_checking_order_vp [of rp "''/game-feature''"
          "PDict [(''type'', PStr ''status''), (''trxid'', oid)]"]
  by (simp add: vp_check_def ServiceVIPayment_check_order_def split_beta)

lemma snd_ServiceMoogold_check_order:
  assumes "fst (ServiceMoogold_check_order rp oid) = Inr v"
  shows "snd (ServiceMoogold_check_order rp oid) =
           [HttpPost MOOGOLD ''order/order_detail''
              (PDict [(''path'', PStr ''order/order_detail''), (''order_id'', oid)])]"
  using assms snd_request_checking_order_mg [of rp "''order/order_detail''"
          "PDict [(''path'', PStr ''order/order_detail''), (''order_id'', oid)]"]
  by (auto simp: ServiceMoogold_check_order_def Let_def split: prod.splits sum.splits)

lemma snd_ServiceJollymax_check_order:
  assumes "fst (ServiceJollymax_check_order sg rp oid mid) = Inr v"
  shows "snd (ServiceJollymax_check_order sg rp oid mid) =
           [HttpPost JOLLYMAX ''/distribute-order-query''
              (PDict [(''version'', PStr ''1.0''), (''keyVersion'', PStr ''1''),
                      (''data'', PDict [(''outOrderId'', oid), (''messageId'', mid)])])]"
  using assms snd_request_checking_order_jm [of rp "''/distribute-order-query''"
          "PDict [(''version'', PStr ''1.0''), (''keyVersion'', PStr ''1''),
                   (''data'', PDict [(''outOrderId'', oid), (''messageId'', mid)])]"]
  by (auto simp: ServiceJollymax_check_order_def Let_def
        split: prod.splits sum.splits option.splits)

lemma no_update_in_mg_check: "UpdateOrder p h m \<notin> set (snd (mg_check cfg rp oid))"
  using snd_request_checking_order_mg [of rp "''order/order_detail''"
          "PDict [(''path'', PStr ''order/order_detail''), (''order_id'', oid)]"]
  by (auto simp: mg_check_def ServiceMoogold_check_order_def Let_def split: prod.splits sum.splits)

lemma no_update_in_jm_check: "UpdateOrder p h m \<notin> set (snd (jm_check cfg sg rp oid mid))"
  using snd_request_checking_order_jm [of rp "''/distribute-order-query''"
          "PDict [(''version'', PStr ''1.0''), (''keyVersion'', PStr ''1''),
                   (''data'', PDict [(''outOrderId'', oid), (''messageId'', mid)])]"]
  by (auto simp: jm_check_def ServiceJollymax_check_order_def Let_def
        split: prod.splits sum.splits option.splits)

lemma update_in_check_vp_order:
  assumes "UpdateOrder p h m \<in> set (snd (check_vp_order cfg rp r db))"
  shows "p = VIPAYMENT \<and> h = order_id r \<and> m = None \<and>
         outcome (fst (vp_check cfg rp (order_id r))) \<noteq> None"
  using assms check_vp_order_cases [of cfg rp r db] by (auto simp: snd_vp_check)

lemma update_in_check_mg_order:
  assumes "UpdateOrder p h m \<in> set (snd (check_mg_order cfg rp r db))"
  shows "p = MOOGOLD \<and> h = order_id r \<and> m = None \<and>
         outcome (fst (mg_check cfg rp (order_id r))) \<noteq> None"
  using assms check_mg_order_cases [of cfg rp r db]
    no_update_in_mg_check [of p h m cfg rp "order_id r"]
  by auto

lemma update_in_check_jm_order:
  assumes "UpdateOrder p h m \<in> set (snd (check_jm_order cfg sg rp r db))"
  shows "p = JOLLYMAX \<and> h = order_id r \<and> m = Some (message_id r) \<and>
         outcome (fst (jm_check cfg sg rp (order_id r) (message_id r))) \<noteq> None"
  using assms check_jm_order_cases [of cfg sg rp r db]
    no_update_in_jm_check [of p h m cfg sg rp "order_id r" "message_id r"]
  by auto

text \<open>A loop body writes to its own table only, and there only to the rows of its
  handle.\<close>

lemma check_vp_order_frame:
  "mg_orders (fst (check_vp_order cfg rp r db)) = mg_orders db \<and>
   jm_orders (fst (check_vp_order cfg rp r db)) = jm_orders db \<and>
   (order_id r \<noteq> h \<longrightarrow> rows_vp h (fst (check_vp_order cfg rp r db)) = rows_vp h db)"
proof -
  have "mg_orders (fst (check_vp_order cfg rp r db)) = mg_orders db \<and>
        jm_orders (fst (check_vp_order cfg rp r db)) = jm_orders db"
    using check_vp_order_cases [of cfg rp r db] by (auto simp: updateOrderVP_def)
  moreover have "order_id r \<noteq> h \<longrightarrow>
                 rows_vp h (fst (check_vp_order cfg rp r db)) = rows_vp h db"
    using check_vp_order_cases [of cfg rp r db] by (auto simp: rows_vp_update_other)
  ultimately show ?thesis by simp
qed

lemma check_mg_order_frame:
  "vp_orders (fst (check_mg_order cfg rp r db)) = vp_orders db \<and>
   jm_orders (fst (check_mg_order cfg rp r db)) = jm_orders db \<and>
   (order_id r \<noteq> h \<longrightarrow> rows_mg h (fst (check_mg_order cfg rp r db)) = rows_mg h db)"
proof -
  have "vp_orders (fst (check_mg_order cfg rp r db)) = vp_orders db \<and>
        jm_orders (fst (check_mg_order cfg rp r db)) = jm_orders db"
    using check_mg_order_cases [of cfg rp r db] by (auto simp: updateOrderMG_def)
  moreover have "order_id r \<noteq> h \<longrightarrow>
                 rows_mg h (fst (check_mg_order cfg rp r db)) = rows_mg h db"
    using check_mg_order_cases [of cfg rp r db] by (auto simp: rows_mg_update_other)
  ultimately show ?thesis by simp
qed

lemma check_jm_order_frame:
  "vp_orders (fst (check_jm_order cfg sg rp r db)) = vp_orders db \<and>
   mg_orders (fst (check_jm_order cfg sg rp r db)) = mg_orders db \<and>
   ((order_id r, message_id r) \<noteq> (h, i) \<longrightarrow>
      rows_jm h i (fst (check_jm_order cfg sg rp r db)) = rows_jm h i db)"
proof -
  have "vp_orders (fst (check_jm_order cfg sg rp r db)) = vp_orders db \<and>
        mg_orders (fst (check_jm_order cfg sg rp r db)) = mg_orders db"
    using check_jm_order_cases [of cfg sg rp r db] by (auto simp: updateOrderJM_def)
  moreover have "(order_id r, message_id r) \<noteq> (h, i) \<longrightarrow>
                 rows_jm h i (fst (check_jm_order cfg sg rp r db)) = rows_jm h i db"
    using check_jm_order_cases [of cfg sg rp r db]
      rows_jm_update_other [of h i "order_id r" "message_id r"]
    by auto
  ultimately show ?thesis by simp
qed


text \<open>The three loops: the tables they leave alone.\<close>

lemma vp_loop_frame:
  "mg_orders (fst (vp_loop cfg st sel db)) = mg_orders db \<and>
   jm_orders (fst (vp_loop cfg st sel db)) = jm_orders db"
  unfolding vp_loop_def
  by (rule for_orders_invariant [where P = "\<lambda>d. mg_orders d = mg_orders db \<and>
                                                jm_orders d = jm_orders db"])
     (auto simp: check_vp_order_frame)

lemma mg_loop_frame:
  "vp_orders (fst (mg_loop cfg st sel db)) = vp_orders db \<and>
   jm_orders (fst (mg_loop cfg st sel db)) = jm_orders db"
  unfolding mg_loop_def
  by (rule for_orders_invariant [where P = "\<lambda>d. vp_orders d = vp_orders db \<and>
                                                jm_orders d = jm_orders db"])
     (auto simp: check_mg_order_frame)

lemma jm_loop_frame:
  "vp_orders (fst (jm_loop cfg st sel db)) = vp_orders db \<and>
   mg_orders (fst (jm_loop cfg st sel db)) = mg_orders db"
  unfolding jm_loop_def
  by (rule for_orders_invariant [where P = "\<lambda>d. vp_orders d = vp_orders db \<and>
                                                mg_orders d = mg_orders db"])
     (auto simp: check_jm_order_frame)

lemma sweep_fst:
  "fst (sweep cfg st db) =
     fst (jm_loop cfg st (getOrderStatusJM ''waiting'' db)
       (fst (mg_loop cfg st (getOrderStatusMG ''processing'' db)
         (fst (vp_loop cfg st (getOrderStatusVP ''waiting'' db) db)))))"
  by (simp add: sweep_def Let_def split_beta)

lemma sweep_snd:
  "snd (sweep cfg st db) =
     snd (vp_loop cfg st (getOrderStatusVP ''waiting'' db) db) @
     snd (mg_loop cfg st (getOrderStatusMG ''processing'' db)
            (fst (vp_loop cfg st (getOrderStatusVP ''waiting'' db) db))) @
     snd (jm_loop cfg st (getOrderStatusJM ''waiting'' db)
            (fst (mg_loop cfg st (getOrderStatusMG ''processing'' db)
              (fst (vp_loop cfg st (getOrderStatusVP ''waiting'' db) db)))))"
  by (simp add: sweep_def Let_def split_beta)

lemma sweep_rows_vp:
  "rows_vp h (fst (sweep cfg st db)) =
     rows_vp h (fst (vp_loop cfg st (getOrderStatusVP ''waiting'' db) db))"
  by (simp add: sweep_fst rows_vp_def jm_loop_frame mg_loop_frame)

lemma sweep_rows_mg:
  "rows_mg h (fst (sweep cfg st db)) =
     rows_mg h (fst (mg_loop cfg st (getOrderStatusMG ''processing'' db)
                       (fst (vp_loop cfg st (getOrderStatusVP ''waiting'' db) db))))"
  by (simp add: sweep_fst rows_mg_def jm_loop_frame)

lemma sweep_rows_jm:
  "rows_jm h i (fst (sweep cfg st db)) =
     rows_jm h i (fst (jm_loop cfg st (getOrderStatusJM ''waiting'' db)
       (fst (mg_loop cfg st (getOrderStatusMG ''processing'' db)
         (fst (vp_loop cfg st (getOrderStatusVP ''waiting'' db) db))))))"
  by (simp add: sweep_fst)

text \<open>The updates that a loop issues come from the iterations whose check has an
  outcome.\<close>

lemma update_in_vp_loop:
  assumes "UpdateOrder p h m \<in> set (snd (vp_loop cfg st sel db))"
  shows "p = VIPAYMENT \<and> m = None \<and>
         (\<exists>k < length sel. order_id (sel ! k) = h \<and>
            outcome (fst (vp_check cfg (vp_stub st k) h)) \<noteq> None)"
proof -
  obtain x d where x: "x \<in> set (enumerate 0 sel)"
    and e: "UpdateOrder p h m \<in> set (snd ((\<lambda>(k, r). check_vp_order cfg (vp_stub st k) r) x d))"
    using for_orders_events [OF assms [unfolded vp_loop_def]] by blast
  obtain k r where kr: "x = (k, r)" by (cases x)
  have "k < length sel \<and> sel ! k = r" using x kr by (simp add: in_enumerate)
  then show ?thesis using e kr update_in_check_vp_order [of p h m cfg "vp_stub st k" r d] by auto
qed

lemma update_in_mg_loop:
  assumes "UpdateOrder p h m \<in> set (snd (mg_loop cfg st sel db))"
  shows "p = MOOGOLD \<and> m = None \<and>
         (\<exists>k < length sel. order_id (sel ! k) = h \<and>
            outcome (fst (mg_check cfg (mg_stub st k) h)) \<noteq> None)"
proof -
  obtain x d where x: "x \<in> set (enumerate 0 sel)"
    and e: "UpdateOrder p h m \<in> set (snd ((\<lambda>(k, r). check_mg_order cfg (mg_stub st k) r) x d))"
    using for_orders_events [OF assms [unfolded mg_loop_def]] by blast
  obtain k r where kr: "x = (k, r)" by (cases x)
  have "k < length sel \<and> sel ! k = r" using x kr by (simp add: in_enumerate)
  then show ?thesis using e kr update_in_check_mg_order [of p h m cfg "mg_stub st k" r d] by auto
qed

lemma update_in_jm_loop:
  assumes "UpdateOrder p h m \<in> set (snd (jm_loop cfg st sel db))"
  shows "p = JOLLYMAX \<and>
         (\<exists>k < length sel. order_id (sel ! k) = h \<and> m = Some (message_id (sel ! k)) \<and>
            outcome (fst (jm_check cfg (jm_signing st k) (jm_stub st k) h
                            (message_id (sel ! k)))) \<noteq> None)"
proof -
  obtain x d where x: "x \<in> set (enumerate 0 sel)"
    and e: "UpdateOrder p h m \<in>
              set (snd ((\<lambda>(k, r). check_jm_order cfg (jm_signing st k) (jm_stub st k) r) x d))"
    using for_orders_events [OF assms [unfolded jm_loop_def]] by blast
  obtain k r where kr: "x = (k, r)" by (cases x)
  have "k < length sel \<and> sel ! k = r" using x kr by (simp add: in_enumerate)
  then show ?thesis
    using e kr update_in_check_jm_order [of p h m cfg "jm_signing st k" "jm_stub st k" r d]
    by auto
qed

text \<open>A loop leaves the rows of a handle as they are when every check of that handle
  is without outcome.\<close>

lemma vp_loop_rows:
  assumes "\<And>k. k < length sel \<Longrightarrow> order_id (sel ! k) = h \<Longrightarrow>
             outcome (fst (vp_check cfg (vp_stub st k) h)) = None"
  shows "rows_vp h (fst (vp_loop cfg st sel db)) = rows_vp h db"
  unfolding vp_loop_def
proof (rule for_orders_invariant [where P = "\<lambda>d. rows_vp h d = rows_vp h db"])
  fix x d
  assume x: "x \<in> set (enumerate 0 sel)" and d: "rows_vp h d = rows_vp h db"
  obtain k r where kr: "x = (k, r)" by (cases x)
  have k: "k < length sel \<and> sel ! k = r" using x kr by (simp add: in_enumerate)
  show "rows_vp h (fst ((case x of (k, r) \<Rightarrow> check_vp_order cfg (vp_stub st k) r) d)) =
        rows_vp h db"
  proof (cases "order_id r = h")
    case True
    then show ?thesis using assms [of k] k d kr by (simp add: check_vp_order_skip)
  next
    case False
    then show ?thesis using d kr check_vp_order_frame [of cfg "vp_stub st k" r d h] by simp
  qed
qed simp

lemma mg_loop_rows:
  assumes "\<And>k. k < length sel \<Longrightarrow> order_id (sel ! k) = h \<Longrightarrow>
             outcome (fst (mg_check cfg (mg_stub st k) h)) = None"
  shows "rows_mg h (fst (mg_loop cfg st sel db)) = rows_mg h db"
  unfolding mg_loop_def
proof (rule for_orders_invariant [where P = "\<lambda>d. rows_mg h d = rows_mg h db"])
  fix x d
  assume x: "x \<in> set (enumerate 0 sel)" and d: "rows_mg h d = rows_mg h db"
  obtain k r where kr: "x = (k, r)" by (cases x)
  have k: "k < length sel \<and> sel ! k = r" using x kr by (simp add: in_enumerate)
  show "rows_mg h (fst ((case x of (k, r) \<Rightarrow> check_mg_order cfg (mg_stub st k) r) d)) =
        rows_mg h db"
  proof (cases "order_id r = h")
    case True
    then show ?thesis using assms [of k] k d kr by (simp add: check_mg_order_skip)
  next
    case False
    then show ?thesis using d kr check_mg_order_frame [of cfg "mg_stub st k" r d h] by simp
  qed
qed simp

lemma jm_loop_rows:
  assumes "\<And>k. k < length sel \<Longrightarrow> order_id (sel ! k) = h \<Longrightarrow> message_id (sel ! k) = i \<Longrightarrow>
             outcome (fst (jm_check cfg (jm_signing st k) (jm_stub st k) h i)) = None"
  shows "rows_jm h i (fst (jm_loop cfg st sel db)) = rows_jm h i db"
  unfolding jm_loop_def
proof (rule for_orders_invariant [where P = "\<lambda>d. rows_jm h i d = rows_jm h i db"])
  fix x d
  assume x: "x \<in> set (enumerate 0 sel)" and d: "rows_jm h i d = rows_jm h i db"
  obtain k r where kr: "x = (k, r)" by (cases x)
  have k: "k < length sel \<and> sel ! k = r" using x kr by (simp add: in_enumerate)
  show "rows_jm h i
          (fst ((case x of (k, r) \<Rightarrow> check_jm_order cfg (jm_signing st k) (jm_stub st k) r) d)) =
        rows_jm h i db"
  proof (cases "order_id r = h \<and> message_id r = i")
    case True
    then show ?thesis using assms [of k] k d kr by (simp add: check_jm_order_skip)
  next
    case False
    then show ?thesis
      using d kr check_jm_order_frame [of cfg "jm_signing st k" "jm_stub st k" r d h i] by auto
  qed
qed simp


text \<open>Checks without outcome: a status outside the vocabulary, and a failed check of
  provider A.\<close>

lemma vp_unknown_outcome:
  assumes "vp_new_status (fst (ServiceVIPayment_check_order rp oid)) = Inr (Some v)"
    and "accepted v (VP_STATUSES cfg) = None"
  shows "outcome (fst (vp_check cfg rp oid)) = None"
  using assms
  by (simp add: vp_check_def split_beta bind_py_def new_columns_def outcome_def)

lemma mg_unknown_outcome:
  assumes "fst (ServiceMoogold_check_order rp oid) = Inr orderData"
    and "mg_new_status orderData = Inr v"
    and "accepted v (MG_STATUSES cfg) = None"
  shows "outcome (fst (mg_check cfg rp oid)) = None"
  using assms
  by (simp add: mg_check_def split_beta bind_py_def new_columns_def outcome_def)

lemma jm_unknown_outcome:
  assumes "fst (ServiceJollymax_check_order sg rp oid mid) = Inr orderData"
    and "jm_new_status orderData = Inr v"
    and "accepted v (JM_STATUSES cfg) = None"
  shows "outcome (fst (jm_check cfg sg rp oid mid)) = None"
  using assms
  by (simp add: jm_check_def split_beta bind_py_def new_columns_def outcome_def)

lemma vp_check_fails_outcome:
  assumes "vp_check_fails cfg rp oid"
  shows "outcome (fst (vp_check cfg rp oid)) = None"
proof (cases "isl (fst (vp_check cfg rp oid))")
  case True
  then show ?thesis by (cases "fst (vp_check cfg rp oid)") (auto simp: outcome_def)
next
  case False
  then have "check_fails rp" using assms by (simp add: vp_check_fails_def)
  then have "fst (vp_check cfg rp oid) = Inr None"
    by (auto simp: check_fails_def vp_check_def ServiceVIPayment_check_order_def
          request_checking_order_vp_def vp_new_status_def bind_py_def check_exception_def
          check_failed_def Let_def split: http_reply.splits)
  then show ?thesis by (simp add: outcome_def)
qed


lemmas sweep_unfold =
  sweep_def vp_loop_def mg_loop_def jm_loop_def
  getOrderStatusVP_def getOrderStatusMG_def getOrderStatusJM_def
  check_vp_order_def check_mg_order_def check_jm_order_def vp_check_def mg_check_def jm_check_def
  ServiceVIPayment_check_order_def ServiceMoogold_check_order_def ServiceJollymax_check_order_def
  request_checking_order_vp_def request_checking_order_mg_def request_checking_order_jm_def
  vp_new_status_def mg_new_status_def jm_new_status_def new_columns_def bind_py_def
  json_dumps_def warning_result_def check_exception_def check_failed_def
  updateOrderVP_def updateOrderMG_def updateOrderJM_def set_columns_def Let_def

lemmas db0_unfold =
  db0_def gift_vp_def gift_mg_def gift_jm_def createOrderVP_def createOrderMG_def
  createOrderJM_def empty_db_def

lemmas db_two_unfold =
  db_two_def gift_vp_def gift_mg_def gift_jm_def createOrderVP_def createOrderMG_def
  createOrderJM_def empty_db_def

text \<open>Provider B's check hands the provider's document through only when its
  \<^verbatim>\<open>order_status\<close> is \<^verbatim>\<open>completed\<close>: for an order that the provider reports as
  refunded, \<^verbatim>\<open>check_order\<close> returns the warning wrapper, which has no top-level
  \<^verbatim>\<open>order_status\<close>, and the sweep leaves the store as it was.\<close>

lemma mg_refunded_not_persisted:
  "fst (ServiceMoogold_check_order (mg_stub st_refunded 0) (PStr ''MG-9'')) =
     Inr (PDict [(''status'', PStr ''warning''), (''message'', PStr ''order not paid''),
                 (''data'', mg_refunded)]) \<and>
   fst (sweep cfg0 st_refunded db0) = db0"
  by (simp add: sweep_unfold db0_unfold cfg0_def st_refunded_def mg_refunded_def)




text \<open>
  C3 (as stated): an order whose check gives a status outside the vocabulary has its row
  unchanged by the sweep. The update is keyed by the handle. In a store with two open
  provider-A orders under the handle \<open>T1\<close>, the provider answers the check of the first
  with the status \<^verbatim>\<open>on hold\<close>, which is not in the vocabulary, and the check of the
  second with \<^verbatim>\<open>success\<close>: the update of the second rewrites the row of the first
  as well, and an update for its handle is among the effects.
\<close>

theorem unknown_status_row_rewritten:
  "map order_id (getOrderStatusVP ''waiting'' db_dup) = [PStr ''T1'', PStr ''T1''] \<and>
   vp_new_status (fst (ServiceVIPayment_check_order (vp_stub st_dup 0) (PStr ''T1'')))
     = Inr (Some (PStr ''on hold'')) \<and>
   accepted (PStr ''on hold'') (VP_STATUSES cfg0) = None \<and>
   map status (vp_orders db_dup) = [''waiting'', ''waiting''] \<and>
   map status (vp_orders (fst (sweep cfg0 st_dup db_dup))) = [''success'', ''success''] \<and>
   vp_orders (fst (sweep cfg0 st_dup db_dup)) ! 0 \<noteq> vp_orders db_dup ! 0 \<and>
   UpdateOrder VIPAYMENT (PStr ''T1'') None \<in> set (snd (sweep cfg0 st_dup db_dup))"
  by (simp add: sweep_unfold db_dup_def gift_vp_def createOrderVP_def empty_db_def cfg0_def
        st_dup_def vp_unknown_def vp_success_def)

text \<open>The updates of a sweep for a handle of one provider come from the loop of that
  provider.\<close>

lemma update_in_sweep:
  assumes "UpdateOrder p h m \<in> set (snd (sweep cfg st db))"
  shows "(p = VIPAYMENT \<and> m = None \<and>
          (\<exists>k < length (getOrderStatusVP ''waiting'' db).
             order_id (getOrderStatusVP ''waiting'' db ! k) = h \<and>
             outcome (fst (vp_check cfg (vp_stub st k) h)) \<noteq> None)) \<or>
         (p = MOOGOLD \<and> m = None \<and>
          (\<exists>k < length (getOrderStatusMG ''processing'' db).
             order_id (getOrderStatusMG ''processing'' db ! k) = h \<and>
             outcome (fst (mg_check cfg (mg_stub st k) h)) \<noteq> None)) \<or>
         (p = JOLLYMAX \<and>
          (\<exists>k < length (getOrderStatusJM ''waiting'' db).
             order_id (getOrderStatusJM ''waiting'' db ! k) = h \<and>
             m = Some (message_id (getOrderStatusJM ''waiting'' db ! k)) \<and>
             outcome (fst (jm_check cfg (jm_signing st k) (jm_stub st k) h
                             (message_id (getOrderStatusJM ''waiting'' db ! k)))) \<noteq> None))"
proof -
  let ?d1 = "fst (vp_loop cfg st (getOrderStatusVP ''waiting'' db) db)"
  let ?d2 = "fst (mg_loop cfg st (getOrderStatusMG ''processing'' db) ?d1)"
  from assms consider
      (vp) "UpdateOrder p h m \<in> set (snd (vp_loop cfg st (getOrderStatusVP ''waiting'' db) db))"
    | (mg) "UpdateOrder p h m
              \<in> set (snd (mg_loop cfg st (getOrderStatusMG ''processing'' db) ?d1))"
    | (jm) "UpdateOrder p h m
              \<in> set (snd (jm_loop cfg st (getOrderStatusJM ''waiting'' db) ?d2))"
    by (auto simp: sweep_snd)
  then show ?thesis
  proof cases
    case vp
    then show ?thesis using update_in_vp_loop [OF vp] by simp
  next
    case mg
    then show ?thesis using update_in_mg_loop [OF mg] by simp
  next
    case jm
    then show ?thesis using update_in_jm_loop [OF jm] by simp
  qed
qed

lemma vp_unknown_leaves_row:
  assumes "k < length (getOrderStatusVP ''waiting'' db)"
    and "vp_new_status (fst (ServiceVIPayment_check_order (vp_stub st k)
           (order_id (getOrderStatusVP ''waiting'' db ! k)))) = Inr (Some v)"
    and "accepted v (VP_STATUSES cfg) = None"
  shows "check_vp_order cfg (vp_stub st k) (getOrderStatusVP ''waiting'' db ! k) db' =
           (db', [HttpPost VIPAYMENT ''/game-feature''
                    (PDict [(''type'', PStr ''status''),
                            (''trxid'', order_id (getOrderStatusVP ''waiting'' db ! k))])]) \<and>
         ((\<forall>k' < length (getOrderStatusVP ''waiting'' db).
              order_id (getOrderStatusVP ''waiting'' db ! k') =
              order_id (getOrderStatusVP ''waiting'' db ! k) \<longrightarrow> k' = k) \<longrightarrow>
            rows_vp (order_id (getOrderStatusVP ''waiting'' db ! k)) (fst (sweep cfg st db)) =
              rows_vp (order_id (getOrderStatusVP ''waiting'' db ! k)) db \<and>
            UpdateOrder VIPAYMENT (order_id (getOrderStatusVP ''waiting'' db ! k)) m
              \<notin> set (snd (sweep cfg st db)))"
proof -
  let ?sel = "getOrderStatusVP ''waiting'' db"
  let ?h = "order_id (?sel ! k)"
  have n: "outcome (fst (vp_check cfg (vp_stub st k) ?h)) = None"
    using assms(2,3) by (rule vp_unknown_outcome)
  have body: "check_vp_order cfg (vp_stub st k) (?sel ! k) db' =
                (db', [HttpPost VIPAYMENT ''/game-feature''
                         (PDict [(''type'', PStr ''status''), (''trxid'', ?h)])])"
    using n by (simp add: check_vp_order_skip snd_vp_check)
  have whole: "rows_vp ?h (fst (sweep cfg st db)) = rows_vp ?h db \<and>
               UpdateOrder VIPAYMENT ?h m \<notin> set (snd (sweep cfg st db))"
    if alone: "\<forall>k' < length ?sel. order_id (?sel ! k') = ?h \<longrightarrow> k' = k"
  proof -
    have none: "outcome (fst (vp_check cfg (vp_stub st k') ?h)) = None"
      if "k' < length ?sel" and "order_id (?sel ! k') = ?h" for k'
      using that alone n by auto
    have rows: "rows_vp ?h (fst (sweep cfg st db)) = rows_vp ?h db"
      using none by (simp add: sweep_rows_vp vp_loop_rows)
    have "UpdateOrder VIPAYMENT ?h m \<notin> set (snd (sweep cfg st db))"
      using update_in_sweep [of VIPAYMENT ?h m cfg st db] none by auto
    then show ?thesis using rows by simp
  qed
  show ?thesis using body whole by blast
qed

lemma mg_unknown_leaves_row:
  assumes "k < length (getOrderStatusMG ''processing'' db)"
    and "fst (ServiceMoogold_check_order (mg_stub st k)
                (order_id (getOrderStatusMG ''processing'' db ! k))) = Inr orderData"
    and "mg_new_status orderData = Inr v"
    and "accepted v (MG_STATUSES cfg) = None"
  shows "check_mg_order cfg (mg_stub st k) (getOrderStatusMG ''processing'' db ! k) db' =
           (db', [HttpPost MOOGOLD ''order/order_detail''
                    (PDict [(''path'', PStr ''order/order_detail''),
                            (''order_id'', order_id (getOrderStatusMG ''processing'' db ! k))])]) \<and>
         ((\<forall>k' < length (getOrderStatusMG ''processing'' db).
              order_id (getOrderStatusMG ''processing'' db ! k') =
              order_id (getOrderStatusMG ''processing'' db ! k) \<longrightarrow> k' = k) \<longrightarrow>
            rows_mg (order_id (getOrderStatusMG ''processing'' db ! k)) (fst (sweep cfg st db)) =
              rows_mg (order_id (getOrderStatusMG ''processing'' db ! k)) db \<and>
            UpdateOrder MOOGOLD (order_id (getOrderStatusMG ''processing'' db ! k)) m
              \<notin> set (snd (sweep cfg st db)))"
proof -
  let ?sel = "getOrderStatusMG ''processing'' db"
  let ?h = "order_id (?sel ! k)"
  let ?d1 = "fst (vp_loop cfg st (getOrderStatusVP ''waiting'' db) db)"
  have n: "outcome (fst (mg_check cfg (mg_stub st k) ?h)) = None"
    using assms(2-4) by (rule mg_unknown_outcome)
  have evs: "snd (mg_check cfg (mg_stub st k) ?h) =
               [HttpPost MOOGOLD ''order/order_detail''
                  (PDict [(''path'', PStr ''order/order_detail''), (''order_id'', ?h)])]"
    using snd_ServiceMoogold_check_order [OF assms(2)] by (simp add: mg_check_def split_beta)
  have body: "check_mg_order cfg (mg_stub st k) (?sel ! k) db' =
                (db', [HttpPost MOOGOLD ''order/order_detail''
                         (PDict [(''path'', PStr ''order/order_detail''), (''order_id'', ?h)])])"
    using n by (simp add: check_mg_order_skip evs)
  have whole: "rows_mg ?h (fst (sweep cfg st db)) = rows_mg ?h db \<and>
               UpdateOrder MOOGOLD ?h m \<notin> set (snd (sweep cfg st db))"
    if alone: "\<forall>k' < length ?sel. order_id (?sel ! k') = ?h \<longrightarrow> k' = k"
  proof -
    have none: "outcome (fst (mg_check cfg (mg_stub st k') ?h)) = None"
      if "k' < length ?sel" and "order_id (?sel ! k') = ?h" for k'
      using that alone n by auto
    have "rows_mg ?h (fst (mg_loop cfg st ?sel ?d1)) = rows_mg ?h ?d1"
      using none by (simp add: mg_loop_rows)
    then have rows: "rows_mg ?h (fst (sweep cfg st db)) = rows_mg ?h db"
      by (simp add: sweep_rows_mg) (simp add: rows_mg_def vp_loop_frame)
    have "UpdateOrder MOOGOLD ?h m \<notin> set (snd (sweep cfg st db))"
      using update_in_sweep [of MOOGOLD ?h m cfg st db] none by auto
    then show ?thesis using rows by simp
  qed
  show ?thesis using body whole by blast
qed

lemma jm_unknown_leaves_row:
  assumes "k < length (getOrderStatusJM ''waiting'' db)"
    and "fst (ServiceJollymax_check_order (jm_signing st k) (jm_stub st k)
                (order_id (getOrderStatusJM ''waiting'' db ! k))
                (message_id (getOrderStatusJM ''waiting'' db ! k))) = Inr orderData"
    and "jm_new_status orderData = Inr v"
    and "accepted v (JM_STATUSES cfg) = None"
  shows "check_jm_order cfg (jm_signing st k) (jm_stub st k)
           (getOrderStatusJM ''waiting'' db ! k) db' =
           (db', [HttpPost JOLLYMAX ''/distribute-order-query''
                    (PDict [(''version'', PStr ''1.0''), (''keyVersion'', PStr ''1''),
                            (''data'',
                               PDict [(''outOrderId'',
                                         order_id (getOrderStatusJM ''waiting'' db ! k)),
                                      (''messageId'',
                                         message_id (getOrderStatusJM ''waiting'' db ! k))])])]) \<and>
         ((\<forall>k' < length (getOrderStatusJM ''waiting'' db).
              handle_jm (getOrderStatusJM ''waiting'' db ! k') =
              handle_jm (getOrderStatusJM ''waiting'' db ! k) \<longrightarrow> k' = k) \<longrightarrow>
            rows_jm (order_id (getOrderStatusJM ''waiting'' db ! k))
                (message_id (getOrderStatusJM ''waiting'' db ! k)) (fst (sweep cfg st db)) =
              rows_jm (order_id (getOrderStatusJM ''waiting'' db ! k))
                (message_id (getOrderStatusJM ''waiting'' db ! k)) db \<and>
            UpdateOrder JOLLYMAX (order_id (getOrderStatusJM ''waiting'' db ! k))
                (Some (message_id (getOrderStatusJM ''waiting'' db ! k)))
              \<notin> set (snd (sweep cfg st db)))"
proof -
  let ?sel = "getOrderStatusJM ''waiting'' db"
  let ?h = "order_id (?sel ! k)"
  let ?i = "message_id (?sel ! k)"
  let ?d1 = "fst (vp_loop cfg st (getOrderStatusVP ''waiting'' db) db)"
  let ?d2 = "fst (mg_loop cfg st (getOrderStatusMG ''processing'' db) ?d1)"
  have n: "outcome (fst (jm_check cfg (jm_signing st k) (jm_stub st k) ?h ?i)) = None"
    using assms(2-4) by (rule jm_unknown_outcome)
  have evs: "snd (jm_check cfg (jm_signing st k) (jm_stub st k) ?h ?i) =
               [HttpPost JOLLYMAX ''/distribute-order-query''
                  (PDict [(''version'', PStr ''1.0''), (''keyVersion'', PStr ''1''),
                          (''data'', PDict [(''outOrderId'', ?h), (''messageId'', ?i)])])]"
    using snd_ServiceJollymax_check_order [OF assms(2)] by (simp add: jm_check_def split_beta)
  have body: "check_jm_order cfg (jm_signing st k) (jm_stub st k) (?sel ! k) db' =
                (db', [HttpPost JOLLYMAX ''/distribute-order-query''
                  (PDict [(''version'', PStr ''1.0''), (''keyVersion'', PStr ''1''),
                          (''data'', PDict [(''outOrderId'', ?h), (''messageId'', ?i)])])])"
    using n by (simp add: check_jm_order_skip evs)
  have whole: "rows_jm ?h ?i (fst (sweep cfg st db)) = rows_jm ?h ?i db \<and>
               UpdateOrder JOLLYMAX ?h (Some ?i) \<notin> set (snd (sweep cfg st db))"
    if alone: "\<forall>k' < length ?sel. handle_jm (?sel ! k') = handle_jm (?sel ! k) \<longrightarrow> k' = k"
  proof -
    have none: "outcome (fst (jm_check cfg (jm_signing st k') (jm_stub st k') ?h ?i)) = None"
      if "k' < length ?sel" and "order_id (?sel ! k') = ?h" and "message_id (?sel ! k') = ?i"
      for k'
      using that alone n by (auto simp: handle_jm_def)
    have "rows_jm ?h ?i (fst (jm_loop cfg st ?sel ?d2)) = rows_jm ?h ?i ?d2"
      using none by (simp add: jm_loop_rows)
    then have rows: "rows_jm ?h ?i (fst (sweep cfg st db)) = rows_jm ?h ?i db"
      by (simp add: sweep_rows_jm) (simp add: rows_jm_def mg_loop_frame vp_loop_frame)
    have "UpdateOrder JOLLYMAX ?h (Some ?i) \<notin> set (snd (sweep cfg st db))"
      using update_in_sweep [of JOLLYMAX ?h "Some ?i" cfg st db] none by auto
    then show ?thesis using rows by simp
  qed
  show ?thesis using body whole by blast
qed

text \<open>
  C3 (amended): for the \<open>k\<close>-th order that a sweep examines for a provider, when the
  status read from the result of \<^verbatim>\<open>check_order\<close> is not in the provider's
  vocabulary, the loop body of the order leaves the store as it is and its only effect
  is the request of the check: it issues no update. When no other order that the sweep
  examines for the provider carries the same handle, every row of the handle is the
  same after the sweep, and the sweep issues no update for the handle.
\<close>

theorem unknown_status_leaves_row:
  "(k < length (getOrderStatusVP ''waiting'' db) \<and>
    vp_new_status (fst (ServiceVIPayment_check_order (vp_stub st k)
           (order_id (getOrderStatusVP ''waiting'' db ! k)))) = Inr (Some v) \<and>
    accepted v (VP_STATUSES cfg) = None \<longrightarrow>
      check_vp_order cfg (vp_stub st k) (getOrderStatusVP ''waiting'' db ! k) db' =
        (db', [HttpPost VIPAYMENT ''/game-feature''
                 (PDict [(''type'', PStr ''status''),
                         (''trxid'', order_id (getOrderStatusVP ''waiting'' db ! k))])]) \<and>
      ((\<forall>k' < length (getOrderStatusVP ''waiting'' db).
           order_id (getOrderStatusVP ''waiting'' db ! k') =
           order_id (getOrderStatusVP ''waiting'' db ! k) \<longrightarrow> k' = k) \<longrightarrow>
         rows_vp (order_id (getOrderStatusVP ''waiting'' db ! k)) (fst (sweep cfg st db)) =
           rows_vp (order_id (getOrderStatusVP ''waiting'' db ! k)) db \<and>
         UpdateOrder VIPAYMENT (order_id (getOrderStatusVP ''waiting'' db ! k)) m
           \<notin> set (snd (sweep cfg st db)))) \<and>
   (k < length (getOrderStatusMG ''processing'' db) \<and>
    fst (ServiceMoogold_check_order (mg_stub st k)
           (order_id (getOrderStatusMG ''processing'' db ! k))) = Inr orderData \<and>
    mg_new_status orderData = Inr v \<and> accepted v (MG_STATUSES cfg) = None \<longrightarrow>
      check_mg_order cfg (mg_stub st k) (getOrderStatusMG ''processing'' db ! k) db' =
        (db', [HttpPost MOOGOLD ''order/order_detail''
                 (PDict [(''path'', PStr ''order/order_detail''),
                         (''order_id'', order_id (getOrderStatusMG ''processing'' db ! k))])]) \<and>
      ((\<forall>k' < length (getOrderStatusMG ''processing'' db).
           order_id (getOrderStatusMG ''processing'' db ! k') =
           order_id (getOrderStatusMG ''processing'' db ! k) \<longrightarrow> k' = k) \<longrightarrow>
         rows_mg (order_id (getOrderStatusMG ''processing'' db ! k)) (fst (sweep cfg st db)) =
           rows_mg (order_id (getOrderStatusMG ''processing'' db ! k)) db \<and>
         UpdateOrder MOOGOLD (order_id (getOrderStatusMG ''processing'' db ! k)) m
           \<notin> set (snd (sweep cfg st db)))) \<and>
   (k < length (getOrderStatusJM ''waiting'' db) \<and>
    fst (ServiceJollymax_check_order (jm_signing st k) (jm_stub st k)
           (order_id (getOrderStatusJM ''waiting'' db ! k))
           (message_id (getOrderStatusJM ''waiting'' db ! k))) = Inr orderData \<and>
    jm_new_status orderData = Inr v \<and> accepted v (JM_STATUSES cfg) = None \<longrightarrow>
      check_jm_order cfg (jm_signing st k) (jm_stub st k)
        (getOrderStatusJM ''waiting'' db ! k) db' =
        (db', [HttpPost JOLLYMAX ''/distribute-order-query''
                 (PDict [(''version'', PStr ''1.0''), (''keyVersion'', PStr ''1''),
                         (''data'',
                            PDict [(''outOrderId'',
                                      order_id (getOrderStatusJM ''waiting'' db ! k)),
                                   (''messageId'',
                                      message_id (getOrderStatusJM ''waiting'' db ! k))])])]) \<and>
      ((\<forall>k' < length (getOrderStatusJM ''waiting'' db).
           handle_jm (getOrderStatusJM ''waiting'' db ! k') =
           handle_jm (getOrderStatusJM ''waiting'' db ! k) \<longrightarrow> k' = k) \<longrightarrow>
         rows_jm (order_id (getOrderStatusJM ''waiting'' db ! k))
             (message_id (getOrderStatusJM ''waiting'' db ! k)) (fst (sweep cfg st db)) =
           rows_jm (order_id (getOrderStatusJM ''waiting'' db ! k))
             (message_id (getOrderStatusJM ''waiting'' db ! k)) db \<and>
         UpdateOrder JOLLYMAX (order_id (getOrderStatusJM ''waiting'' db ! k))
             (Some (message_id (getOrderStatusJM ''waiting'' db ! k)))
           \<notin> set (snd (sweep cfg st db))))"
proof (intro conjI impI)
  assume a: "k < length (getOrderStatusVP ''waiting'' db) \<and>
    vp_new_status (fst (ServiceVIPayment_check_order (vp_stub st k)
           (order_id (getOrderStatusVP ''waiting'' db ! k)))) = Inr (Some v) \<and>
    accepted v (VP_STATUSES cfg) = None"
  note l = vp_unknown_leaves_row [of k db st v cfg db' m]
  show "check_vp_order cfg (vp_stub st k) (getOrderStatusVP ''waiting'' db ! k) db' =
        (db', [HttpPost VIPAYMENT ''/game-feature''
                 (PDict [(''type'', PStr ''status''),
                         (''trxid'', order_id (getOrderStatusVP ''waiting'' db ! k))])])"
    using a l by blast
  assume b: "\<forall>k' < length (getOrderStatusVP ''waiting'' db).
           order_id (getOrderStatusVP ''waiting'' db ! k') =
           order_id (getOrderStatusVP ''waiting'' db ! k) \<longrightarrow> k' = k"
  show "rows_vp (order_id (getOrderStatusVP ''waiting'' db ! k)) (fst (sweep cfg st db)) =
           rows_vp (order_id (getOrderStatusVP ''waiting'' db ! k)) db"
    using a b l by blast
  show "UpdateOrder VIPAYMENT (order_id (getOrderStatusVP ''waiting'' db ! k)) m
           \<notin> set (snd (sweep cfg st db))"
    using a b l by blast
next
  assume a: "k < length (getOrderStatusMG ''processing'' db) \<and>
    fst (ServiceMoogold_check_order (mg_stub st k)
           (order_id (getOrderStatusMG ''processing'' db ! k))) = Inr orderData \<and>
    mg_new_status orderData = Inr v \<and> accepted v (MG_STATUSES cfg) = None"
  note l = mg_unknown_leaves_row [of k db st orderData v cfg db' m]
  show "check_mg_order cfg (mg_stub st k) (getOrderStatusMG ''processing'' db ! k) db' =
        (db', [HttpPost MOOGOLD ''order/order_detail''
                 (PDict [(''path'', PStr ''order/order_detail''),
                         (''order_id'', order_id (getOrderStatusMG ''processing'' db ! k))])])"
    using a l by blast
  assume b: "\<forall>k' < length (getOrderStatusMG ''processing'' db).
           order_id (getOrderStatusMG ''processing'' db ! k') =
           order_id (getOrderStatusMG ''processing'' db ! k) \<longrightarrow> k' = k"
  show "rows_mg (order_id (getOrderStatusMG ''processing'' db ! k)) (fst (sweep cfg st db)) =
           rows_mg (order_id (getOrderStatusMG ''processing'' db ! k)) db"
    using a b l by blast
  show "UpdateOrder MOOGOLD (order_id (getOrderStatusMG ''processing'' db ! k)) m
           \<notin> set (snd (sweep cfg st db))"
    using a b l by blast
next
  assume a: "k < length (getOrderStatusJM ''waiting'' db) \<and>
    fst (ServiceJollymax_check_order (jm_signing st k) (jm_stub st k)
           (order_id (getOrderStatusJM ''waiting'' db ! k))
           (message_id (getOrderStatusJM ''waiting'' db ! k))) = Inr orderData \<and>
    jm_new_status orderData = Inr v \<and> accepted v (JM_STATUSES cfg) = None"
  note l = jm_unknown_leaves_row [of k db st orderData v cfg db']
  show "check_jm_order cfg (jm_signing st k) (jm_stub st k)
        (getOrderStatusJM ''waiting'' db ! k) db' =
        (db', [HttpPost JOLLYMAX ''/distribute-order-query''
                 (PDict [(''version'', PStr ''1.0''), (''keyVersion'', PStr ''1''),
                         (''data'',
                            PDict [(''outOrderId'',
                                      order_id (getOrderStatusJM ''waiting'' db ! k)),
                                   (''messageId'',
                                      message_id (getOrderStatusJM ''waiting'' db ! k))])])])"
    using a l by blast
  assume b: "\<forall>k' < length (getOrderStatusJM ''waiting'' db).
           handle_jm (getOrderStatusJM ''waiting'' db ! k') =
           handle_jm (getOrderStatusJM ''waiting'' db ! k) \<longrightarrow> k' = k"
  show "rows_jm (order_id (getOrderStatusJM ''waiting'' db ! k))
             (message_id (getOrderStatusJM ''waiting'' db ! k)) (fst (sweep cfg st db)) =
           rows_jm (order_id (getOrderStatusJM ''waiting'' db ! k))
             (message_id (getOrderStatusJM ''waiting'' db ! k)) db"
    using a b l by blast
  show "UpdateOrder JOLLYMAX (order_id (getOrderStatusJM ''waiting'' db ! k))
             (Some (message_id (getOrderStatusJM ''waiting'' db ! k)))
           \<notin> set (snd (sweep cfg st db))"
    using a b l by blast
qed

theorem unknown_status_leaves_row_witness:
  "map order_id (getOrderStatusVP ''waiting'' db_two) = [PStr ''T1'', PStr ''T2''] \<and>
   vp_new_status (fst (ServiceVIPayment_check_order (vp_stub st_mixed 0) (PStr ''T1'')))
     = Inr (Some (PStr ''on hold'')) \<and>
   accepted (PStr ''on hold'') (VP_STATUSES cfg0) = None \<and>
   rows_vp (PStr ''T1'') (fst (sweep cfg0 st_mixed db_two)) = rows_vp (PStr ''T1'') db_two \<and>
   length (rows_vp (PStr ''T1'') db_two) = 1 \<and>
   UpdateOrder VIPAYMENT (PStr ''T1'') None \<notin> set (snd (sweep cfg0 st_mixed db_two)) \<and>
   map status (vp_orders (fst (sweep cfg0 st_mixed db_two))) = [''waiting'', ''success''] \<and>
   map order_id (getOrderStatusMG ''processing'' db_two) = [PStr ''MG-9'', PStr ''MG-10''] \<and>
   fst (ServiceMoogold_check_order (mg_stub st_mixed 1) (PStr ''MG-10'')) =
     Inr (PDict [(''status'', PStr ''warning''), (''message'', PStr ''order not paid''),
                 (''data'', PDict [(''order_status'', PStr ''pending'')])]) \<and>
   mg_new_status (PDict [(''status'', PStr ''warning''), (''message'', PStr ''order not paid''),
                         (''data'', PDict [(''order_status'', PStr ''pending'')])]) = Inr PNone \<and>
   accepted PNone (MG_STATUSES cfg0) = None \<and>
   rows_mg (PStr ''MG-10'') (fst (sweep cfg0 st_mixed db_two)) =
     rows_mg (PStr ''MG-10'') db_two \<and>
   length (rows_mg (PStr ''MG-10'') db_two) = 1 \<and>
   UpdateOrder MOOGOLD (PStr ''MG-10'') None \<notin> set (snd (sweep cfg0 st_mixed db_two)) \<and>
   map status (mg_orders (fst (sweep cfg0 st_mixed db_two))) = [''completed'', ''processing''] \<and>
   map handle_jm (getOrderStatusJM ''waiting'' db_two) =
     [(PStr ''J1'', PStr ''M1''), (PStr ''J1'', PStr ''M2'')] \<and>
   fst (ServiceJollymax_check_order (jm_signing st_mixed 0) (jm_stub st_mixed 0)
          (PStr ''J1'') (PStr ''M1'')) = Inr jm_unknown \<and>
   jm_new_status jm_unknown = Inr (PStr ''ON_HOLD'') \<and>
   accepted (PStr ''ON_HOLD'') (JM_STATUSES cfg0) = None \<and>
   rows_jm (PStr ''J1'') (PStr ''M1'') (fst (sweep cfg0 st_mixed db_two)) =
     rows_jm (PStr ''J1'') (PStr ''M1'') db_two \<and>
   length (rows_jm (PStr ''J1'') (PStr ''M1'') db_two) = 1 \<and>
   UpdateOrder JOLLYMAX (PStr ''J1'') (Some (PStr ''M1''))
     \<notin> set (snd (sweep cfg0 st_mixed db_two)) \<and>
   map status (jm_orders (fst (sweep cfg0 st_mixed db_two))) = [''waiting'', ''SUCCESS'']"
proof -
  let ?w = "PDict [(''status'', PStr ''warning''), (''message'', PStr ''order not paid''),
                   (''data'', PDict [(''order_status'', PStr ''pending'')])]"
  have l: "length (getOrderStatusVP ''waiting'' db_two) = 2"
    "length (getOrderStatusMG ''processing'' db_two) = 2"
    "length (getOrderStatusJM ''waiting'' db_two) = 2"
    by (simp_all add: getOrderStatusVP_def getOrderStatusMG_def getOrderStatusJM_def
          db_two_unfold)
  have ids: "order_id (getOrderStatusVP ''waiting'' db_two ! 0) = PStr ''T1''"
    "order_id (getOrderStatusVP ''waiting'' db_two ! Suc 0) = PStr ''T2''"
    "order_id (getOrderStatusMG ''processing'' db_two ! 0) = PStr ''MG-9''"
    "order_id (getOrderStatusMG ''processing'' db_two ! Suc 0) = PStr ''MG-10''"
    "order_id (getOrderStatusJM ''waiting'' db_two ! 0) = PStr ''J1''"
    "message_id (getOrderStatusJM ''waiting'' db_two ! 0) = PStr ''M1''"
    "handle_jm (getOrderStatusJM ''waiting'' db_two ! 0) = (PStr ''J1'', PStr ''M1'')"
    "handle_jm (getOrderStatusJM ''waiting'' db_two ! Suc 0) = (PStr ''J1'', PStr ''M2'')"
    by (simp_all add: getOrderStatusVP_def getOrderStatusMG_def getOrderStatusJM_def
          db_two_unfold handle_jm_def)
  have sel: "map order_id (getOrderStatusVP ''waiting'' db_two) = [PStr ''T1'', PStr ''T2'']"
    "map order_id (getOrderStatusMG ''processing'' db_two) = [PStr ''MG-9'', PStr ''MG-10'']"
    "map handle_jm (getOrderStatusJM ''waiting'' db_two) =
       [(PStr ''J1'', PStr ''M1''), (PStr ''J1'', PStr ''M2'')]"
    by (simp_all add: getOrderStatusVP_def getOrderStatusMG_def getOrderStatusJM_def
          db_two_unfold handle_jm_def)
  have n: "length (rows_vp (PStr ''T1'') db_two) = 1"
    "length (rows_mg (PStr ''MG-10'') db_two) = 1"
    "length (rows_jm (PStr ''J1'') (PStr ''M1'') db_two) = 1"
    by (simp_all add: rows_vp_def rows_mg_def rows_jm_def db_two_unfold)
  have alone_vp: "\<forall>k' < length (getOrderStatusVP ''waiting'' db_two).
      order_id (getOrderStatusVP ''waiting'' db_two ! k') =
      order_id (getOrderStatusVP ''waiting'' db_two ! 0) \<longrightarrow> k' = 0"
    by (auto simp: l ids less_Suc_eq numeral_2_eq_2)
  have alone_mg: "\<forall>k' < length (getOrderStatusMG ''processing'' db_two).
      order_id (getOrderStatusMG ''processing'' db_two ! k') =
      order_id (getOrderStatusMG ''processing'' db_two ! Suc 0) \<longrightarrow> k' = Suc 0"
    by (auto simp: l ids less_Suc_eq numeral_2_eq_2)
  have alone_jm: "\<forall>k' < length (getOrderStatusJM ''waiting'' db_two).
      handle_jm (getOrderStatusJM ''waiting'' db_two ! k') =
      handle_jm (getOrderStatusJM ''waiting'' db_two ! 0) \<longrightarrow> k' = 0"
    by (auto simp: l ids less_Suc_eq numeral_2_eq_2)
  have a1: "vp_new_status (fst (ServiceVIPayment_check_order (vp_stub st_mixed 0)
              (PStr ''T1''))) = Inr (Some (PStr ''on hold''))"
    by (simp add: st_mixed_def vp_unknown_def ServiceVIPayment_check_order_def
          request_checking_order_vp_def vp_new_status_def bind_py_def)
  have a2: "accepted (PStr ''on hold'') (VP_STATUSES cfg0) = None" by (simp add: cfg0_def)
  have b1: "fst (ServiceMoogold_check_order (mg_stub st_mixed (Suc 0)) (PStr ''MG-10'')) = Inr ?w"
    by (simp add: st_mixed_def ServiceMoogold_check_order_def
          request_checking_order_mg_def json_dumps_def bind_py_def warning_result_def)
  have b2: "mg_new_status ?w = Inr PNone" by (simp add: mg_new_status_def)
  have b3: "accepted PNone (MG_STATUSES cfg0) = None" by simp
  have c1: "fst (ServiceJollymax_check_order (jm_signing st_mixed 0) (jm_stub st_mixed 0)
                   (PStr ''J1'') (PStr ''M1'')) = Inr jm_unknown"
    by (simp add: st_mixed_def jm_unknown_def ServiceJollymax_check_order_def
          request_checking_order_jm_def json_dumps_def)
  have c2: "jm_new_status jm_unknown = Inr (PStr ''ON_HOLD'')"
    by (simp add: jm_new_status_def jm_unknown_def bind_py_def)
  have c3: "accepted (PStr ''ON_HOLD'') (JM_STATUSES cfg0) = None" by (simp add: cfg0_def)
  have after: "map status (vp_orders (fst (sweep cfg0 st_mixed db_two))) =
                 [''waiting'', ''success''] \<and>
               map status (mg_orders (fst (sweep cfg0 st_mixed db_two))) =
                 [''completed'', ''processing''] \<and>
               map status (jm_orders (fst (sweep cfg0 st_mixed db_two))) =
                 [''waiting'', ''SUCCESS'']"
    by (simp add: sweep_unfold db_two_unfold cfg0_def st_mixed_def mg_completed_def
          vp_unknown_def vp_success_def jm_unknown_def jm_paid_def)
  note vp = unknown_status_leaves_row [of 0 db_two st_mixed "PStr ''on hold''" cfg0 db_two
      None ?w]
  note mg = unknown_status_leaves_row [of "Suc 0" db_two st_mixed PNone cfg0 db_two None ?w]
  note jm = unknown_status_leaves_row [of 0 db_two st_mixed "PStr ''ON_HOLD''" cfg0 db_two
      None jm_unknown]
  have v: "rows_vp (PStr ''T1'') (fst (sweep cfg0 st_mixed db_two)) =
             rows_vp (PStr ''T1'') db_two \<and>
      UpdateOrder VIPAYMENT (PStr ''T1'') None \<notin> set (snd (sweep cfg0 st_mixed db_two))"
    using vp a1 a2 alone_vp by (simp add: l ids)
  have m: "rows_mg (PStr ''MG-10'') (fst (sweep cfg0 st_mixed db_two)) =
             rows_mg (PStr ''MG-10'') db_two \<and>
      UpdateOrder MOOGOLD (PStr ''MG-10'') None \<notin> set (snd (sweep cfg0 st_mixed db_two))"
    using mg b1 b2 b3 alone_mg by (simp add: l ids)
  have j: "rows_jm (PStr ''J1'') (PStr ''M1'') (fst (sweep cfg0 st_mixed db_two)) =
             rows_jm (PStr ''J1'') (PStr ''M1'') db_two \<and>
      UpdateOrder JOLLYMAX (PStr ''J1'') (Some (PStr ''M1''))
        \<notin> set (snd (sweep cfg0 st_mixed db_two))"
    using jm c1 c2 c3 alone_jm by (simp add: l ids)
  show ?thesis using sel n a1 a2 b1 b2 b3 c1 c2 c3 v m j after by simp
qed


text \<open>A loop body whose \<^verbatim>\<open>try\<close> block raises leaves the store as it was, and the loop
  goes on with the rest of its orders.\<close>

lemma caught_continues:
  "(isl (fst (vp_check cfg (vp_stub st k) (order_id r))) \<longrightarrow>
      for_orders (\<lambda>(k, r). check_vp_order cfg (vp_stub st k) r) ((k, r) # rs) db =
        (case for_orders (\<lambda>(k, r). check_vp_order cfg (vp_stub st k) r) rs db of
           (db', evs) \<Rightarrow> (db', snd (vp_check cfg (vp_stub st k) (order_id r)) @ evs))) \<and>
   (isl (fst (mg_check cfg (mg_stub st k) (order_id r))) \<longrightarrow>
      for_orders (\<lambda>(k, r). check_mg_order cfg (mg_stub st k) r) ((k, r) # rs) db =
        (case for_orders (\<lambda>(k, r). check_mg_order cfg (mg_stub st k) r) rs db of
           (db', evs) \<Rightarrow> (db', snd (mg_check cfg (mg_stub st k) (order_id r)) @ evs))) \<and>
   (isl (fst (jm_check cfg (jm_signing st k) (jm_stub st k) (order_id q) (message_id q))) \<longrightarrow>
      for_orders (\<lambda>(k, r). check_jm_order cfg (jm_signing st k) (jm_stub st k) r)
          ((k, q) # qs) db =
        (case for_orders (\<lambda>(k, r). check_jm_order cfg (jm_signing st k) (jm_stub st k) r)
                qs db of
           (db', evs) \<Rightarrow>
             (db', snd (jm_check cfg (jm_signing st k) (jm_stub st k) (order_id q)
                          (message_id q)) @ evs)))"
  by (auto simp: check_vp_order_def check_mg_order_def check_jm_order_def Let_def isl_def
        split: prod.splits)

text \<open>
  C7: when every check of a provider-A order fails in a sweep (the request raises, the
  answer is an error, or the loop body raises), the sweep is the loop over the
  provider-B orders followed by the loop over the provider-C orders, run on the store
  as it was, after the requests to provider A. More generally, a loop body whose
  \<^verbatim>\<open>try\<close> block raises leaves the store as it was, and the loop goes on with the rest
  of its orders.
\<close>

theorem provider_a_failure_isolated:
  assumes "\<forall>k < length (getOrderStatusVP ''waiting'' db).
             vp_check_fails cfg (vp_stub st k) (order_id (getOrderStatusVP ''waiting'' db ! k))"
  shows "sweep cfg st db =
           (case mg_loop cfg st (getOrderStatusMG ''processing'' db) db of
              (db2, evs2) \<Rightarrow>
                (case jm_loop cfg st (getOrderStatusJM ''waiting'' db) db2 of
                   (db3, evs3) \<Rightarrow>
                     (db3,
                      concat (map (\<lambda>(k, r). snd (vp_check cfg (vp_stub st k) (order_id r)))
                                (enumerate 0 (getOrderStatusVP ''waiting'' db))) @
                      evs2 @ evs3))) \<and>
         (isl (fst (vp_check cfg (vp_stub st k) (order_id r))) \<longrightarrow>
            for_orders (\<lambda>(k, r). check_vp_order cfg (vp_stub st k) r) ((k, r) # rs) db' =
              (case for_orders (\<lambda>(k, r). check_vp_order cfg (vp_stub st k) r) rs db' of
                 (db'', evs) \<Rightarrow>
                   (db'', snd (vp_check cfg (vp_stub st k) (order_id r)) @ evs))) \<and>
         (isl (fst (mg_check cfg (mg_stub st k) (order_id r))) \<longrightarrow>
            for_orders (\<lambda>(k, r). check_mg_order cfg (mg_stub st k) r) ((k, r) # rs) db' =
              (case for_orders (\<lambda>(k, r). check_mg_order cfg (mg_stub st k) r) rs db' of
                 (db'', evs) \<Rightarrow>
                   (db'', snd (mg_check cfg (mg_stub st k) (order_id r)) @ evs))) \<and>
         (isl (fst (jm_check cfg (jm_signing st k) (jm_stub st k) (order_id q)
                      (message_id q))) \<longrightarrow>
            for_orders (\<lambda>(k, r). check_jm_order cfg (jm_signing st k) (jm_stub st k) r)
                ((k, q) # qs) db' =
              (case for_orders (\<lambda>(k, r). check_jm_order cfg (jm_signing st k) (jm_stub st k) r)
                      qs db' of
                 (db'', evs) \<Rightarrow>
                   (db'', snd (jm_check cfg (jm_signing st k) (jm_stub st k) (order_id q)
                                (message_id q)) @ evs)))"
proof -
  let ?sel = "getOrderStatusVP ''waiting'' db"
  have "for_orders (\<lambda>(k, r). check_vp_order cfg (vp_stub st k) r) (enumerate 0 ?sel) db =
          (db, concat (map (\<lambda>(k, r). snd (vp_check cfg (vp_stub st k) (order_id r)))
                         (enumerate 0 ?sel)))"
  proof (rule for_orders_skip)
    fix x d
    assume x: "x \<in> set (enumerate 0 ?sel)"
    obtain j r where jr: "x = (j, r)" by (cases x)
    have "j < length ?sel \<and> ?sel ! j = r" using x jr by (simp add: in_enumerate)
    then have "vp_check_fails cfg (vp_stub st j) (order_id r)" using assms by auto
    then have "outcome (fst (vp_check cfg (vp_stub st j) (order_id r))) = None"
      by (rule vp_check_fails_outcome)
    then show "(case x of (k, r) \<Rightarrow> check_vp_order cfg (vp_stub st k) r) d =
               (d, case x of (k, r) \<Rightarrow> snd (vp_check cfg (vp_stub st k) (order_id r)))"
      using jr by (simp add: check_vp_order_skip)
  qed
  then have a: "vp_loop cfg st ?sel db =
          (db, concat (map (\<lambda>(k, r). snd (vp_check cfg (vp_stub st k) (order_id r)))
                         (enumerate 0 ?sel)))"
    by (simp add: vp_loop_def)
  have isolated: "sweep cfg st db =
           (case mg_loop cfg st (getOrderStatusMG ''processing'' db) db of
              (db2, evs2) \<Rightarrow>
                (case jm_loop cfg st (getOrderStatusJM ''waiting'' db) db2 of
                   (db3, evs3) \<Rightarrow>
                     (db3,
                      concat (map (\<lambda>(k, r). snd (vp_check cfg (vp_stub st k) (order_id r)))
                                (enumerate 0 ?sel)) @
                      evs2 @ evs3)))"
    by (simp add: sweep_def Let_def a)
  show ?thesis
    using isolated caught_continues [of cfg st k r rs db' q qs] by blast
qed

theorem provider_a_failure_isolated_witness:
  "length (getOrderStatusVP ''waiting'' db0) = 1 \<and>
   vp_check_fails cfg0 (vp_stub st_a_down 0) (order_id (getOrderStatusVP ''waiting'' db0 ! 0)) \<and>
   map status (vp_orders (fst (sweep cfg0 st_a_down db0))) = [''waiting''] \<and>
   map status (mg_orders (fst (sweep cfg0 st_a_down db0))) = [''completed''] \<and>
   map order_details (mg_orders (fst (sweep cfg0 st_a_down db0))) = [Dumps mg_completed] \<and>
   map status (jm_orders (fst (sweep cfg0 st_a_down db0))) = [''SUCCESS''] \<and>
   map order_details (jm_orders (fst (sweep cfg0 st_a_down db0))) = [Dumps jm_paid] \<and>
   snd (sweep cfg0 st_a_down db0) =
     [HttpPost VIPAYMENT ''/game-feature''
        (PDict [(''type'', PStr ''status''), (''trxid'', PStr ''T1'')]),
      HttpPost MOOGOLD ''order/order_detail''
        (PDict [(''path'', PStr ''order/order_detail''), (''order_id'', PStr ''MG-9'')]),
      UpdateOrder MOOGOLD (PStr ''MG-9'') None,
      HttpPost JOLLYMAX ''/distribute-order-query''
        (PDict [(''version'', PStr ''1.0''), (''keyVersion'', PStr ''1''),
                (''data'', PDict [(''outOrderId'', PStr ''J1''), (''messageId'', PStr ''M1'')])]),
      UpdateOrder JOLLYMAX (PStr ''J1'') (Some (PStr ''M1''))]"
proof -
  have f: "\<And>k oid. vp_check_fails cfg0 (vp_stub st_a_down k) oid"
    by (simp add: vp_check_fails_def check_fails_def st_a_down_def)
  have h: "\<forall>k < length (getOrderStatusVP ''waiting'' db0).
             vp_check_fails cfg0 (vp_stub st_a_down k)
               (order_id (getOrderStatusVP ''waiting'' db0 ! k))"
    using f by simp
  have l: "length (getOrderStatusVP ''waiting'' db0) = 1"
    by (simp add: getOrderStatusVP_def db0_unfold)
  have s: "sweep cfg0 st_a_down db0 =
           (case mg_loop cfg0 st_a_down (getOrderStatusMG ''processing'' db0) db0 of
              (db2, evs2) \<Rightarrow>
                (case jm_loop cfg0 st_a_down (getOrderStatusJM ''waiting'' db0) db2 of
                   (db3, evs3) \<Rightarrow>
                     (db3,
                      concat (map (\<lambda>(k, r). snd (vp_check cfg0 (vp_stub st_a_down k)
                                                    (order_id r)))
                                (enumerate 0 (getOrderStatusVP ''waiting'' db0))) @
                      evs2 @ evs3)))"
    using provider_a_failure_isolated [OF h] by blast
  show ?thesis
    using l f unfolding s
    by (simp add: sweep_unfold db0_unfold cfg0_def st_a_down_def mg_completed_def jm_paid_def)
qed


end
